theory Spec2Isabelle
  imports Complex_Main "HOL-Library.AList" "HOL-Library.Sublist" "HOL-Library.Char_ord"
    "HOL-Library.List_Lexorder"
begin

section \<open>JavaScript values\<close>

text \<open>
  The application reads and writes JSON: the shop's configuration metafield, the form
  fields \<open>tiers\<close> and \<open>products\<close>, the selected products. A value of JavaScript is
  modelled by \<open>jsval\<close>. \<open>JUndefined\<close> is what reading a missing property gives; it never
  occurs inside a parsed JSON text.
  A number \<open>JNum q\<close> is the number that \<open>JSON.parse\<close> gives for a literal of value \<open>q\<close>:
  the double nearest to \<open>q\<close>, an infinity when \<open>q\<close> is out of range. \<open>NaN\<close> is not a
  value of JSON, and the program reads a number through \<open>String\<close>, \<open>||\<close> and \<open>??\<close>, which
  do not tell the two zeros apart.
  A string is a list of characters, each a UTF-16 code unit below 256, that is a
  character of Latin-1.
  An object is the list of its own properties in insertion order, with distinct keys.
\<close>

datatype jsval =
    JUndefined
  | JNull
  | JBool bool
  | JNum rat
  | JStr string
  | JArr "jsval list"
  | JObj "(string \<times> jsval) list"

subsection \<open>Doubles\<close>

text \<open>
  \<open>pow_int b e\<close> is \<open>b\<close> to the power \<open>e\<close> for \<open>e \<ge> 0\<close> and \<open>1\<close> for a negative \<open>e\<close>;
  \<open>bit_length n\<close> is the number of binary digits of \<open>n > 0\<close>.
\<close>

function pow_int :: "int \<Rightarrow> int \<Rightarrow> int" where
  "pow_int b e = (if e \<le> 0 then 1 else b * pow_int b (e - 1))"
  by pat_completeness auto
termination
  by (relation "measure (\<lambda>(b, e). nat e)") auto

declare pow_int.simps [simp del]

function bit_length :: "int \<Rightarrow> int" where
  "bit_length n = (if n \<le> 0 then 0 else 1 + bit_length (n div 2))"
  by pat_completeness auto
termination
  by (relation "measure nat") auto

declare bit_length.simps [simp del]

text \<open>
  \<open>nearest_double n d\<close> is the double nearest to \<open>n / d\<close>, for \<open>n\<close> and \<open>d\<close> positive,
  a tie going to the even mantissa, as IEEE 754 rounds: \<open>Some (m, e)\<close> stands for
  \<open>m \<sqdot> 2\<^sup>e\<close>, where either \<open>2\<^sup>5\<^sup>2 \<le> m < 2\<^sup>5\<^sup>3\<close> and \<open>-1074 \<le> e \<le> 971\<close>, or \<open>m < 2\<^sup>5\<^sup>2\<close> and
  \<open>e = -1074\<close> (a subnormal number, or zero); \<open>None\<close> is an infinity. \<open>e0\<close> is the
  binary exponent of \<open>n / d\<close>, the \<open>e0\<close> with \<open>2\<^sup>e\<^sup>0 \<le> n / d < 2\<^sup>e\<^sup>0\<^sup>+\<^sup>1\<close>.
\<close>

definition nearest_double :: "int \<Rightarrow> int \<Rightarrow> (int \<times> int) option" where
  "nearest_double n d =
     (let b = bit_length n - bit_length d;
          e0 = (if pow_int 2 b * d \<le> pow_int 2 (- b) * n then b else b - 1);
          e = max (e0 - 52) (- 1074);
          num = n * pow_int 2 (- e);
          den = d * pow_int 2 e;
          q = num div den;
          r = num mod den;
          m = (if 2 * r < den then q
               else if den < 2 * r then q + 1
               else if even q then q else q + 1)
      in if m = pow_int 2 53 then (if 971 < e + 1 then None else Some (pow_int 2 52, e + 1))
         else if 971 < e then None
         else Some (m, e))"

definition double_value :: "int \<times> int \<Rightarrow> rat" where
  "double_value me =
     of_int (fst me * pow_int 2 (snd me)) / of_int (pow_int 2 (- snd me))"

text \<open>
  The double nearest to a rational, as a rational; \<open>None\<close> is an infinity. A negative
  number that rounds to zero gives the negative zero, which is \<open>0\<close> here. An integer of
  magnitude at most \<open>2\<^sup>5\<^sup>3\<close> is a double.
\<close>

definition to_double :: "rat \<Rightarrow> rat option" where
  "to_double x =
     (if snd (quotient_of x) = 1 \<and> \<bar>fst (quotient_of x)\<bar> \<le> 9007199254740992 then Some x
      else
        map_option (\<lambda>me. if x < 0 then - double_value me else double_value me)
          (nearest_double \<bar>fst (quotient_of x)\<bar> (snd (quotient_of x))))"

text \<open>Truthiness, \<open>a || b\<close> and \<open>a ?? b\<close>. Of the numbers, the zeros are falsy.\<close>

fun truthy :: "jsval \<Rightarrow> bool" where
  "truthy JUndefined = False"
| "truthy JNull = False"
| "truthy (JBool b) = b"
| "truthy (JNum q) = (to_double q \<noteq> Some 0)"
| "truthy (JStr s) = (s \<noteq> [])"
| "truthy (JArr xs) = True"
| "truthy (JObj fs) = True"

definition js_or :: "jsval \<Rightarrow> jsval \<Rightarrow> jsval" where
  "js_or a b = (if truthy a then a else b)"

definition nullish :: "jsval \<Rightarrow> jsval \<Rightarrow> jsval" where
  "nullish a b = (if a = JUndefined \<or> a = JNull then b else a)"

text \<open>
  \<open>js_get v k\<close> is \<open>v?.k\<close> for the property names the program reads (\<open>discounts\<close>,
  \<open>title\<close>, \<open>status\<close>, \<open>products\<close>, \<open>tiers\<close>, \<open>discount_id\<close>, \<open>id\<close>, \<open>min_quantity\<close>,
  \<open>percent_off\<close>): only an object has them. It is also \<open>v.k\<close> where \<open>v\<close> is neither
  \<open>null\<close> nor \<open>undefined\<close>; the places where the program writes \<open>v.k\<close> on a value that
  can be \<open>null\<close> are modelled at the caller as a thrown \<open>TypeError\<close>.
\<close>

fun js_get :: "jsval \<Rightarrow> string \<Rightarrow> jsval" where
  "js_get (JObj fs) k = (case map_of fs k of Some v \<Rightarrow> v | None \<Rightarrow> JUndefined)"
| "js_get v k = JUndefined"

text \<open>\<open>Array.isArray(v) ? v : []\<close>.\<close>

fun array_items :: "jsval \<Rightarrow> jsval list" where
  "array_items (JArr xs) = xs"
| "array_items v = []"

fun is_array :: "jsval \<Rightarrow> bool" where
  "is_array (JArr xs) = True"
| "is_array v = False"

text \<open>\<open>typeof v === "object"\<close>: also true of \<open>null\<close> and of arrays.\<close>

fun typeof_object :: "jsval \<Rightarrow> bool" where
  "typeof_object JNull = True"
| "typeof_object (JArr xs) = True"
| "typeof_object (JObj fs) = True"
| "typeof_object v = False"

text \<open>\<open>typeof v === "string" && v.length > 0\<close>, giving the string.\<close>

fun nonempty_string :: "jsval \<Rightarrow> string option" where
  "nonempty_string (JStr s) = (if s = [] then None else Some s)"
| "nonempty_string v = None"

subsection \<open>Strings\<close>

text \<open>
  The white space of \<open>trim\<close>, of the class \<open>\s\<close> and of the numeric conversions: among
  the characters of Latin-1, the tab, the line feed, the vertical tab, the form feed,
  the carriage return, the space and the no-break space. \<open>toLowerCase\<close> maps the
  letters \<open>A\<close> to \<open>Z\<close> and the accented capitals \<open>U+00C0\<close> to \<open>U+00DE\<close>, the
  multiplication sign \<open>U+00D7\<close> apart, to the character 32 places further.
\<close>

definition is_ws :: "char \<Rightarrow> bool" where
  "is_ws c = (c = CHR '' '' \<or> c = CHR 0x09 \<or> c = CHR 0x0A \<or> c = CHR 0x0B
     \<or> c = CHR 0x0C \<or> c = CHR 0x0D \<or> c = CHR 0xA0)"

definition trim :: "string \<Rightarrow> string" where
  "trim s = rev (dropWhile is_ws (rev (dropWhile is_ws s)))"

definition is_digit :: "char \<Rightarrow> bool" where
  "is_digit c = (c \<in> set ''0123456789'')"

definition is_lower :: "char \<Rightarrow> bool" where
  "is_lower c = (c \<in> set ''abcdefghijklmnopqrstuvwxyz'')"

definition upper_latin1 :: string where
  "upper_latin1 =
     [CHR 0xC0, CHR 0xC1, CHR 0xC2, CHR 0xC3, CHR 0xC4, CHR 0xC5, CHR 0xC6, CHR 0xC7,
      CHR 0xC8, CHR 0xC9, CHR 0xCA, CHR 0xCB, CHR 0xCC, CHR 0xCD, CHR 0xCE, CHR 0xCF,
      CHR 0xD0, CHR 0xD1, CHR 0xD2, CHR 0xD3, CHR 0xD4, CHR 0xD5, CHR 0xD6,
      CHR 0xD8, CHR 0xD9, CHR 0xDA, CHR 0xDB, CHR 0xDC, CHR 0xDD, CHR 0xDE]"

definition lower_latin1 :: string where
  "lower_latin1 =
     [CHR 0xE0, CHR 0xE1, CHR 0xE2, CHR 0xE3, CHR 0xE4, CHR 0xE5, CHR 0xE6, CHR 0xE7,
      CHR 0xE8, CHR 0xE9, CHR 0xEA, CHR 0xEB, CHR 0xEC, CHR 0xED, CHR 0xEE, CHR 0xEF,
      CHR 0xF0, CHR 0xF1, CHR 0xF2, CHR 0xF3, CHR 0xF4, CHR 0xF5, CHR 0xF6,
      CHR 0xF8, CHR 0xF9, CHR 0xFA, CHR 0xFB, CHR 0xFC, CHR 0xFD, CHR 0xFE]"

definition lower_char :: "char \<Rightarrow> char" where
  "lower_char c =
     (case map_of (zip (''ABCDEFGHIJKLMNOPQRSTUVWXYZ'' @ upper_latin1)
                       (''abcdefghijklmnopqrstuvwxyz'' @ lower_latin1)) c of
        Some l \<Rightarrow> l | None \<Rightarrow> c)"

definition toLowerCase :: "string \<Rightarrow> string" where
  "toLowerCase s = map lower_char s"

definition digit_val :: "char \<Rightarrow> int" where
  "digit_val c =
     (case map_of (zip ''0123456789abcdef'' [0, 1, 2, 3, 4, 5, 6, 7, 8, 9, 10, 11, 12, 13, 14, 15])
             (lower_char c) of
        Some d \<Rightarrow> d | None \<Rightarrow> 0)"

definition digits_val :: "int \<Rightarrow> string \<Rightarrow> int" where
  "digits_val radix ds = foldl (\<lambda>a c. radix * a + digit_val c) 0 ds"

text \<open>The decimal digits of a natural number: of an index, with \<open>nat_digits\<close>.\<close>

fun nat_digits :: "nat \<Rightarrow> string" where
  "nat_digits n =
     (if n < 10 then [''0123456789'' ! n]
      else nat_digits (n div 10) @ [''0123456789'' ! (n mod 10)])"

function int_digits :: "int \<Rightarrow> string" where
  "int_digits n =
     (if n < 10 then [''0123456789'' ! nat n]
      else int_digits (n div 10) @ [''0123456789'' ! nat (n mod 10)])"
  by pat_completeness auto
termination
  by (relation "measure nat") auto

declare int_digits.simps [simp del]

fun join_with :: "string \<Rightarrow> string list \<Rightarrow> string" where
  "join_with sep [] = []"
| "join_with sep [s] = s"
| "join_with sep (s # t # ss) = s @ sep @ join_with sep (t # ss)"

subsection \<open>The text of a number\<close>

text \<open>
  \<open>String\<close> of a number writes the shortest decimal that reads back as the same double
  and, of those with that many digits, the nearest to it. For the positive double
  \<open>m \<sqdot> 2\<^sup>e\<close>: \<open>decimal_exponent\<close> is the \<open>n\<close> with \<open>10\<^sup>n\<^sup>-\<^sup>1 \<le> m \<sqdot> 2\<^sup>e < 10\<^sup>n\<close>;
  \<open>shortest_at\<close> looks among the decimals \<open>s \<sqdot> 10\<^sup>n\<^sup>-\<^sup>k\<close> with \<open>k\<close> digits at the two
  that enclose the double; \<open>shortest_from\<close> tries \<open>k = 1, 2, ...\<close> in turn and gives the
  digits found, filled up to seventeen with zeros. Seventeen digits always read back,
  so the list of the \<open>k\<close> does not run out.
\<close>

definition decimal_exponent :: "int \<Rightarrow> int \<Rightarrow> int" where
  "decimal_exponent n d =
     (let c = int (length (int_digits n)) - int (length (int_digits d))
      in if pow_int 10 c * d \<le> pow_int 10 (- c) * n then c + 1 else c)"

definition shortest_at :: "int \<times> int \<Rightarrow> int \<Rightarrow> int \<Rightarrow> int option" where
  "shortest_at me n k =
     (let p = n - k;
          a = fst me * pow_int 2 (snd me) * pow_int 10 (- p);
          b = pow_int 2 (- snd me) * pow_int 10 p;
          lo = a div b;
          hi = lo + 1;
          lo_ok = (nearest_double (lo * pow_int 10 p) (pow_int 10 (- p)) = Some me);
          hi_ok = (nearest_double (hi * pow_int 10 p) (pow_int 10 (- p)) = Some me)
      in if lo_ok \<and> hi_ok then
           Some (if 2 * (a mod b) < b then lo
                 else if b < 2 * (a mod b) then hi
                 else if even lo then lo else hi)
         else if lo_ok then Some lo
         else if hi_ok then Some hi
         else None)"

fun shortest_from :: "int \<times> int \<Rightarrow> int \<Rightarrow> int list \<Rightarrow> int" where
  "shortest_from me n [] =
     fst me * pow_int 2 (snd me) * pow_int 10 (17 - n)
       div (pow_int 2 (- snd me) * pow_int 10 (n - 17))"
| "shortest_from me n (k # ks) =
     (case shortest_at me n k of
        Some s \<Rightarrow> s * pow_int 10 (17 - k)
      | None \<Rightarrow> shortest_from me n ks)"

definition strip_zeros :: "string \<Rightarrow> string" where
  "strip_zeros ds = rev (dropWhile (\<lambda>c. c = CHR ''0'') (rev ds))"

text \<open>
  The digits \<open>ds\<close>, \<open>k\<close> of them, and the exponent \<open>n\<close> are then written as
  \<open>Number.prototype.toString\<close> does: the digits and zeros up to the point when
  \<open>k \<le> n \<le> 21\<close>, with a point inside when \<open>0 < n \<le> 21\<close>, after \<open>0.\<close> and zeros when
  \<open>-6 < n \<le> 0\<close>, and with an exponent otherwise. An integer of magnitude at most
  \<open>2\<^sup>5\<^sup>3\<close> is written with all its digits, which are the shortest that read back.
\<close>

definition positive_to_string :: "int \<times> int \<Rightarrow> string" where
  "positive_to_string me =
     (let n0 = decimal_exponent (fst me * pow_int 2 (snd me)) (pow_int 2 (- snd me));
          s = shortest_from me n0 [1, 2, 3, 4, 5, 6, 7, 8, 9, 10, 11, 12, 13, 14, 15, 16, 17];
          n = (if s = pow_int 10 17 then n0 + 1 else n0);
          ds = strip_zeros (int_digits s);
          k = int (length ds)
      in if k \<le> n \<and> n \<le> 21 then ds @ replicate (nat (n - k)) CHR ''0''
         else if 0 < n \<and> n \<le> 21 then take (nat n) ds @ ''.'' @ drop (nat n) ds
         else if - 6 < n \<and> n \<le> 0 then ''0.'' @ replicate (nat (- n)) CHR ''0'' @ ds
         else
           (let ex = (if n - 1 < 0 then ''-'' else ''+'') @ int_digits \<bar>n - 1\<bar>
            in if k = 1 then ds @ ''e'' @ ex
               else [hd ds] @ ''.'' @ tl ds @ ''e'' @ ex))"

definition number_to_string :: "rat \<Rightarrow> string" where
  "number_to_string x =
     (if snd (quotient_of x) = 1 \<and> \<bar>fst (quotient_of x)\<bar> \<le> 9007199254740992 then
        (if x < 0 then ''-'' @ int_digits (- fst (quotient_of x))
         else int_digits (fst (quotient_of x)))
      else
        (case nearest_double \<bar>fst (quotient_of x)\<bar> (snd (quotient_of x)) of
           None \<Rightarrow> (if x < 0 then ''-Infinity'' else ''Infinity'')
         | Some me \<Rightarrow>
             if fst me = 0 then ''0''
             else if x < 0 then ''-'' @ positive_to_string me
             else positive_to_string me))"

text \<open>
  \<open>String(v)\<close>. An array is the join of its elements by commas, \<open>null\<close> and \<open>undefined\<close>
  elements giving the empty string. An object is \<open>[object Object]\<close>, which is what
  \<open>Object.prototype.toString\<close> gives: the objects of a JSON text that have a property
  \<open>toString\<close> of their own, on which \<open>String\<close> throws, are not covered.
\<close>

fun js_String :: "jsval \<Rightarrow> string" where
  "js_String JUndefined = ''undefined''"
| "js_String JNull = ''null''"
| "js_String (JBool b) = (if b then ''true'' else ''false'')"
| "js_String (JNum q) = number_to_string q"
| "js_String (JStr s) = s"
| "js_String (JArr xs) =
     join_with '',''
       (map (\<lambda>x. if x = JNull \<or> x = JUndefined then [] else js_String x) xs)"
| "js_String (JObj fs) = ''[object Object]''"

text \<open>
  \<open>Number.parseInt(s, 10)\<close>: leading white space, an optional sign, then the longest run
  of decimal digits, whose value is rounded to the nearest double. \<open>None\<close> stands for
  \<open>NaN\<close>, when there is no digit, and for the infinities, when the digits are out of
  range: every caller tests the result with \<open>Number.isInteger\<close> or compares it with such
  a result by \<open>!==\<close>, and these answer alike on the three.
\<close>

definition unsigned_int :: "string \<Rightarrow> int option" where
  "unsigned_int s =
     (let ds = takeWhile is_digit s
      in if ds = [] then None
         else map_option floor (to_double (of_int (digits_val 10 ds))))"

definition parseInt10 :: "string \<Rightarrow> int option" where
  "parseInt10 s =
     (case dropWhile is_ws s of
        [] \<Rightarrow> None
      | c # t \<Rightarrow>
          if c = CHR ''-'' then map_option uminus (unsigned_int t)
          else if c = CHR ''+'' then unsigned_int t
          else unsigned_int (c # t))"

text \<open>
  \<open>Number(s)\<close> for a string, as far as its caller looks at it: \<open>Some q\<close> for a finite
  number, \<open>None\<close> for \<open>NaN\<close> and for the infinities (the caller tests
  \<open>Number.isFinite\<close>). The grammar is that of a string numeric literal: white space
  around it, the empty string is \<open>0\<close>; an optional sign, digits with an optional
  fraction and an optional exponent; or an unsigned literal in base 16, 8 or 2.
  \<open>numeric_literal\<close> is the exact value of the literal, \<open>js_Number\<close> the double nearest
  to it.
\<close>

definition pow10 :: "int \<Rightarrow> rat" where
  "pow10 e = (if 0 \<le> e then 10 ^ nat e else 1 / 10 ^ nat (- e))"

definition exponent_part :: "string \<Rightarrow> int option" where
  "exponent_part s =
     (case s of
        [] \<Rightarrow> Some 0
      | c # t \<Rightarrow>
          if c = CHR ''e'' \<or> c = CHR ''E'' then
            (let sg = (case t of [] \<Rightarrow> 1 | d # u \<Rightarrow> if d = CHR ''-'' then - 1 else (1::int));
                 ds = (case t of [] \<Rightarrow> []
                       | d # u \<Rightarrow> if d = CHR ''-'' \<or> d = CHR ''+'' then u else t)
             in if ds \<noteq> [] \<and> list_all is_digit ds
                then Some (sg * digits_val 10 ds) else None)
          else None)"

definition unsigned_decimal :: "string \<Rightarrow> rat option" where
  "unsigned_decimal s =
     (let ip = takeWhile is_digit s;
          r1 = dropWhile is_digit s;
          fp = (case r1 of [] \<Rightarrow> []
                | c # t \<Rightarrow> if c = CHR ''.'' then takeWhile is_digit t else []);
          r2 = (case r1 of [] \<Rightarrow> []
                | c # t \<Rightarrow> if c = CHR ''.'' then dropWhile is_digit t else r1)
      in if ip = [] \<and> fp = [] then None
         else (case exponent_part r2 of
                 None \<Rightarrow> None
               | Some e \<Rightarrow>
                   Some ((of_int (digits_val 10 ip)
                          + of_int (digits_val 10 fp) / 10 ^ length fp) * pow10 e)))"

definition radix_literal :: "nat \<Rightarrow> string \<Rightarrow> rat option" where
  "radix_literal radix ds =
     (if ds \<noteq> [] \<and>
         list_all (\<lambda>c. lower_char c \<in> set (take radix ''0123456789abcdef'')) ds
      then Some (of_int (digits_val (int radix) ds)) else None)"

definition numeric_literal :: "string \<Rightarrow> rat option" where
  "numeric_literal s =
     (let t = trim s
      in if t = [] then Some 0
         else if prefix ''0x'' (toLowerCase (take 2 t)) then radix_literal 16 (drop 2 t)
         else if prefix ''0o'' (toLowerCase (take 2 t)) then radix_literal 8 (drop 2 t)
         else if prefix ''0b'' (toLowerCase (take 2 t)) then radix_literal 2 (drop 2 t)
         else if hd t = CHR ''-'' then map_option uminus (unsigned_decimal (tl t))
         else if hd t = CHR ''+'' then unsigned_decimal (tl t)
         else unsigned_decimal t)"

definition js_Number :: "string \<Rightarrow> rat option" where
  "js_Number s = Option.bind (numeric_literal s) to_double"

text \<open>
  \<open>toKebabCase\<close>: trim, lower case, drop every character outside \<open>[a-z0-9\s-]\<close>, turn
  each run of white space into one hyphen, then each run of hyphens into one hyphen.
\<close>

function replace_ws_runs :: "string \<Rightarrow> string" where
  "replace_ws_runs [] = []"
| "replace_ws_runs (c # cs) =
     (if is_ws c then CHR ''-'' # replace_ws_runs (dropWhile is_ws cs)
      else c # replace_ws_runs cs)"
  by pat_completeness auto
termination
  by (relation "measure length") (auto simp: length_dropWhile_le less_Suc_eq_le)

function replace_hyphen_runs :: "string \<Rightarrow> string" where
  "replace_hyphen_runs [] = []"
| "replace_hyphen_runs (c # cs) =
     (if c = CHR ''-'' then CHR ''-'' # replace_hyphen_runs (dropWhile (\<lambda>d. d = CHR ''-'') cs)
      else c # replace_hyphen_runs cs)"
  by pat_completeness auto
termination
  by (relation "measure length") (auto simp: length_dropWhile_le less_Suc_eq_le)

definition toKebabCase :: "string \<Rightarrow> string" where
  "toKebabCase v =
     replace_hyphen_runs
       (replace_ws_runs
          (filter (\<lambda>c. is_lower c \<or> is_digit c \<or> is_ws c \<or> c = CHR ''-'')
             (toLowerCase (trim v))))"

section \<open>The configuration document\<close>

text \<open>
  \<open>parseDiscountConfig\<close>. \<open>JSON.parse\<close> is the platform's: it is the parameter
  \<open>JSON_parse\<close>, \<open>None\<close> where it throws a \<open>SyntaxError\<close>. The metafield's value is a
  string, or absent.
\<close>

definition empty_config :: jsval where
  "empty_config = JObj [(''discounts'', JArr [])]"

definition parseDiscountConfig :: "(string \<Rightarrow> jsval option) \<Rightarrow> string option \<Rightarrow> jsval" where
  "parseDiscountConfig JSON_parse val =
     (case val of
        None \<Rightarrow> empty_config
      | Some s \<Rightarrow>
          if s = [] then empty_config
          else (case JSON_parse s of
                  None \<Rightarrow> empty_config
                | Some parsed \<Rightarrow>
                    if \<not> truthy parsed \<or> \<not> typeof_object parsed then empty_config
                    else if \<not> is_array (js_get parsed ''discounts'') then empty_config
                    else parsed))"


section \<open>Product identifiers\<close>

definition product_prefix :: string where
  "product_prefix = ''gid://shopify/Product/''"

text \<open>
  \<open>normalizeProductId\<close>: a string with the prefix, or an object (an array is one too,
  with no \<open>id\<close>) whose \<open>id\<close> is such a string; the empty string otherwise.
\<close>

fun normalizeProductId :: "jsval \<Rightarrow> string" where
  "normalizeProductId (JStr s) = (if prefix product_prefix s then s else [])"
| "normalizeProductId (JObj fs) =
     (case js_get (JObj fs) ''id'' of
        JStr s \<Rightarrow> if prefix product_prefix s then s else []
      | _ \<Rightarrow> [])"
| "normalizeProductId v = []"

text \<open>
  \<open>Array.from(new Set(xs))\<close>: a \<open>Set\<close> keeps its elements in the order of their first
  insertion.
\<close>

definition set_add :: "'a list \<Rightarrow> 'a \<Rightarrow> 'a list" where
  "set_add seen x = (if x \<in> set seen then seen else seen @ [x])"

definition from_set :: "'a list \<Rightarrow> 'a list" where
  "from_set xs = foldl set_add [] xs"

definition normalizeProductIds :: "jsval \<Rightarrow> string list" where
  "normalizeProductIds products =
     from_set (filter (\<lambda>s. s \<noteq> []) (map normalizeProductId (array_items products)))"

text \<open>
  \<open>getRuleProductIds\<close>. The parameter's default \<open>{}\<close> stands in for \<open>undefined\<close> only:
  on \<open>null\<close> the read of \<open>rule.products\<close> throws a \<open>TypeError\<close>, the result \<open>None\<close>. The
  loop over the tiers keeps \<open>seenIds\<close> and \<open>productIdsFromTiers\<close> with the same
  elements, so one list stands for both.
\<close>

definition getRuleProductIds :: "jsval \<Rightarrow> string list option" where
  "getRuleProductIds rule =
     (if rule = JNull then None
      else
        (let directProductIds = normalizeProductIds (js_get rule ''products'')
         in if directProductIds \<noteq> [] then Some directProductIds
            else Some (foldl (\<lambda>seen tier.
                         foldl set_add seen (normalizeProductIds (js_get tier ''products'')))
                       [] (array_items (js_get rule ''tiers'')))))"

section \<open>The projection of the tiers of a product\<close>

record projected_tier =
  pt_min_quantity :: int
  pt_percent_off :: rat

text \<open>\<open>normalizeTierForProjection\<close>; \<open>None\<close> is its \<open>null\<close>.\<close>

definition normalizeTierForProjection :: "jsval \<Rightarrow> projected_tier option" where
  "normalizeTierForProjection tier =
     (let minQuantity =
            parseInt10 (trim (js_String (nullish (js_get tier ''min_quantity'') (JStr []))));
          percentOff =
            js_Number (trim (js_String (nullish (js_get tier ''percent_off'') (JStr []))))
      in case minQuantity of
           None \<Rightarrow> None
         | Some q \<Rightarrow>
             if q \<le> 0 then None
             else (case percentOff of
                     None \<Rightarrow> None
                   | Some p \<Rightarrow>
                       if p < 0 \<or> p > 100 then None
                       else Some \<lparr>pt_min_quantity = q, pt_percent_off = p\<rparr>))"

text \<open>
  \<open>buildProductTierProjection\<close>. The \<open>Map\<close> \<open>byMinQuantity\<close> is an association list in
  insertion order: \<open>Map.set\<close> replaces the value of a key in place and appends a new key,
  as \<open>AList.update\<close> does. \<open>tier_step\<close> is the body of the inner loop, \<open>rule_step\<close> the
  body of the outer one; a \<open>null\<close> rule throws in \<open>getRuleProductIds\<close>. The sort is
  \<open>Array.prototype.sort\<close>, which is stable.
\<close>

definition tier_step ::
  "(int \<times> projected_tier) list \<Rightarrow> jsval \<Rightarrow> (int \<times> projected_tier) list" where
  "tier_step byMinQuantity tier =
     (case normalizeTierForProjection tier of
        None \<Rightarrow> byMinQuantity
      | Some normalizedTier \<Rightarrow>
          (case map_of byMinQuantity (pt_min_quantity normalizedTier) of
             None \<Rightarrow>
               AList.update (pt_min_quantity normalizedTier) normalizedTier byMinQuantity
           | Some existing \<Rightarrow>
               if pt_percent_off normalizedTier > pt_percent_off existing
               then AList.update (pt_min_quantity normalizedTier) normalizedTier byMinQuantity
               else byMinQuantity))"

fun rule_loop ::
  "string \<Rightarrow> (int \<times> projected_tier) list \<Rightarrow> jsval list
     \<Rightarrow> (int \<times> projected_tier) list option" where
  "rule_loop productId byMinQuantity [] = Some byMinQuantity"
| "rule_loop productId byMinQuantity (rule # rules) =
     (case getRuleProductIds rule of
        None \<Rightarrow> None
      | Some ruleProductIds \<Rightarrow>
          if productId \<notin> set ruleProductIds then rule_loop productId byMinQuantity rules
          else rule_loop productId
                 (foldl tier_step byMinQuantity (array_items (js_get rule ''tiers''))) rules)"

definition buildProductTierProjection :: "jsval \<Rightarrow> string \<Rightarrow> projected_tier list option" where
  "buildProductTierProjection discounts productId =
     map_option (\<lambda>byMinQuantity. sort_key pt_min_quantity (map snd byMinQuantity))
       (rule_loop productId [] (array_items discounts))"

text \<open>
  The tiers that apply to a product, as the specification names them: the valid tiers,
  normalized, of every rule whose product identifiers contain the product.
\<close>

definition applicable_tiers :: "jsval list \<Rightarrow> string \<Rightarrow> projected_tier list" where
  "applicable_tiers rules productId =
     concat (map (\<lambda>rule.
        if productId \<in> set (case getRuleProductIds rule of None \<Rightarrow> [] | Some ids \<Rightarrow> ids)
        then List.map_filter normalizeTierForProjection (array_items (js_get rule ''tiers''))
        else []) rules)"


text \<open>
  The invariant of the two loops: \<open>fed\<close> are the normalized tiers met so far. The keys of
  the map are distinct, every value is one of the tiers met and is stored under its own
  \<open>min_quantity\<close>, and every tier met has an entry under its \<open>min_quantity\<close> whose
  \<open>percent_off\<close> is at least its own.
\<close>

definition projection_inv ::
  "(int \<times> projected_tier) list \<Rightarrow> projected_tier list \<Rightarrow> bool" where
  "projection_inv byMinQuantity fed =
     (distinct (map fst byMinQuantity) \<and>
      (\<forall>k v. map_of byMinQuantity k = Some v \<longrightarrow> pt_min_quantity v = k \<and> v \<in> set fed) \<and>
      (\<forall>t \<in> set fed. \<exists>v. map_of byMinQuantity (pt_min_quantity t) = Some v \<and>
           pt_percent_off t \<le> pt_percent_off v))"


section \<open>The remote service\<close>

text \<open>
  Every call of \<open>admin.graphql\<close> is a \<open>request\<close>: the query of the shop's identifier and
  configuration metafield, the five mutations of automatic discounts, \<open>metafieldsSet\<close>,
  and the query of product summaries. The input of a discount carries what varies:
  the title, the minimum quantity as \<open>String(min_quantity)\<close>, the percentage
  \<open>percent_off / 100\<close> (\<open>None\<close> for \<open>NaN\<close>) and the products; \<open>combinesWith\<close> (all
  true), \<open>appliesOnOneTimePurchase\<close> (true) and \<open>appliesOnSubscription\<close> (false) are
  constants, and the \<open>startsAt\<close> of a creation is the clock's. A key left out of
  \<open>products\<close> is \<open>None\<close>.
  The value of a metafield is the \<open>JSON.stringify\<close> of \<open>{discounts}\<close> for the shop and
  of the projection for a product.
\<close>

record products_input =
  productsToAdd :: "string list option"
  productsToRemove :: "string list option"

record discount_input =
  di_title :: string
  di_quantity :: string
  di_percentage :: "rat option"
  di_products :: products_input

datatype metafield_value =
    ConfigJson "jsval list"
  | ProjectionJson "projected_tier list"

record metafield =
  mf_ownerId :: "string option"
  mf_namespace :: string
  mf_key :: string
  mf_type :: string
  mf_value :: metafield_value

datatype request =
    ShopQuery
  | DiscountCreate discount_input
  | DiscountUpdate string discount_input
  | DiscountDelete string
  | DiscountActivate string
  | DiscountDeactivate string
  | MetafieldsSet "metafield list"
  | ProductSummaries "string list"

text \<open>
  What the program reads of a response: \<open>data.shop.id\<close>, \<open>data.shop.metafield.value\<close>,
  the messages of the mutation's \<open>userErrors\<close>, the \<open>automaticDiscountNode.id\<close> of a
  creation, and \<open>data.nodes\<close>. The service is any function of the requests made so far
  and the request; the state of a run is the list of the requests made, in order.
\<close>

record response =
  shop_id :: "string option"
  metafield_text :: "string option"
  userErrors :: "string list"
  node_id :: "string option"
  nodes :: jsval

type_synonym admin = "request list \<Rightarrow> request \<Rightarrow> response"

definition graphql :: "admin \<Rightarrow> request \<Rightarrow> request list \<Rightarrow> response \<times> request list" where
  "graphql admin req trace = (admin trace req, trace @ [req])"

text \<open>The two kinds of \<open>metafieldsSet\<close>: of projections, and of the document.\<close>

definition is_projection_write :: "request \<Rightarrow> bool" where
  "is_projection_write req =
     (case req of
        MetafieldsSet ms \<Rightarrow>
          list_ex (\<lambda>m. case mf_value m of ProjectionJson p \<Rightarrow> True | _ \<Rightarrow> False) ms
      | _ \<Rightarrow> False)"

definition is_document_write :: "request \<Rightarrow> bool" where
  "is_document_write req =
     (case req of
        MetafieldsSet ms \<Rightarrow>
          list_ex (\<lambda>m. case mf_value m of ConfigJson d \<Rightarrow> True | _ \<Rightarrow> False) ms
      | _ \<Rightarrow> False)"

definition writes_metafields :: "request \<Rightarrow> bool" where
  "writes_metafields req = (case req of MetafieldsSet ms \<Rightarrow> True | _ \<Rightarrow> False)"

definition is_discount_create :: "request \<Rightarrow> bool" where
  "is_discount_create req = (case req of DiscountCreate i \<Rightarrow> True | _ \<Rightarrow> False)"

definition QUANTITY_BREAKS_NAMESPACE :: string where
  "QUANTITY_BREAKS_NAMESPACE = ''quantity_breaks''"

definition QUANTITY_BREAKS_KEY :: string where
  "QUANTITY_BREAKS_KEY = ''discounts''"

definition QUANTITY_BREAKS_TYPE :: string where
  "QUANTITY_BREAKS_TYPE = ''json''"

definition MAX_METAFIELDS_SET :: nat where
  "MAX_METAFIELDS_SET = 25"

section \<open>Writing the projections\<close>

text \<open>
  \<open>chunkArray\<close>, its parameter \<open>size\<close> written \<open>chunk_size\<close>. The loop advances
  \<open>index\<close> by \<open>size\<close>, so with \<open>size = 0\<close> and a non-empty array it never ends:
  \<open>None\<close> is not returning. \<open>items.slice(index, index + size)\<close> is
  \<open>take size (drop index items)\<close>.
\<close>

partial_function (option) chunk_loop ::
  "'a list \<Rightarrow> nat \<Rightarrow> nat \<Rightarrow> 'a list list \<Rightarrow> 'a list list option" where
  "chunk_loop items chunk_size index chunks =
     (if index < length items
      then chunk_loop items chunk_size (index + chunk_size)
             (chunks @ [take chunk_size (drop index items)])
      else Some chunks)"

definition chunkArray :: "'a list \<Rightarrow> nat \<Rightarrow> 'a list list option" where
  "chunkArray items chunk_size = chunk_loop items chunk_size 0 []"

text \<open>
  \<open>recomputeProductDiscountProjectionMetafields\<close>. \<open>build_metafields\<close> is the first
  loop: a \<open>TypeError\<close> of \<open>buildProductTierProjection\<close> leaves it, and the function,
  before any write. \<open>set_chunks\<close> is the second loop, one \<open>metafieldsSet\<close> per chunk,
  each awaited before the next. The result is \<open>None\<close> when the function does not
  return.
\<close>

definition projection_metafield :: "string \<Rightarrow> projected_tier list \<Rightarrow> metafield" where
  "projection_metafield productId projectedTiers =
     \<lparr>mf_ownerId = Some productId,
      mf_namespace = QUANTITY_BREAKS_NAMESPACE,
      mf_key = QUANTITY_BREAKS_KEY,
      mf_type = QUANTITY_BREAKS_TYPE,
      mf_value = (if length projectedTiers > 0 then ProjectionJson projectedTiers
                  else ProjectionJson [])\<rparr>"

fun build_metafields :: "jsval \<Rightarrow> string list \<Rightarrow> metafield list \<Rightarrow> metafield list option" where
  "build_metafields discounts [] metafieldsToSet = Some metafieldsToSet"
| "build_metafields discounts (productId # productIds) metafieldsToSet =
     (case buildProductTierProjection discounts productId of
        None \<Rightarrow> None
      | Some projectedTiers \<Rightarrow>
          build_metafields discounts productIds
            (metafieldsToSet @ [projection_metafield productId projectedTiers]))"

fun set_chunks ::
  "admin \<Rightarrow> metafield list list \<Rightarrow> string list \<Rightarrow> request list
     \<Rightarrow> string list \<times> request list" where
  "set_chunks admin [] errors trace = (errors, trace)"
| "set_chunks admin (metafieldChunk # chunks) errors trace =
     (let (response, trace') = graphql admin (MetafieldsSet metafieldChunk) trace
      in set_chunks admin chunks
           (if length (userErrors response) > 0 then errors @ userErrors response else errors)
           trace')"

definition recomputeProductDiscountProjectionMetafields ::
  "admin \<Rightarrow> jsval \<Rightarrow> jsval \<Rightarrow> request list \<Rightarrow> string list option \<times> request list" where
  "recomputeProductDiscountProjectionMetafields admin discounts affectedProductIds trace =
     (let productIds = normalizeProductIds affectedProductIds
      in if length productIds = 0 then (Some [], trace)
         else (case build_metafields discounts productIds [] of
                 None \<Rightarrow> (None, trace)
               | Some metafieldsToSet \<Rightarrow>
                   (case chunkArray metafieldsToSet MAX_METAFIELDS_SET of
                      None \<Rightarrow> (None, trace)
                    | Some chunks \<Rightarrow>
                        (let (errors, trace') = set_chunks admin chunks [] trace
                         in (Some errors, trace')))))"

section \<open>The rule page: deleting and updating a rule\<close>

text \<open>
  A tier of the submitted form once parsed, the object
  \<open>{...tier, title, min_quantity, percent_off}\<close>: \<open>t_spread\<close> are the properties the
  spread copies (the own properties of an object, the indexed elements of an array or
  of a string, nothing for the other values) and the three fields are the properties
  written over them. \<open>tier.discount_id\<close> is read from the spread.
\<close>

record tier =
  t_title :: string
  t_min_quantity :: "int option"
  t_percent_off :: "int option"
  t_spread :: "(string \<times> jsval) list"

fun spread :: "jsval \<Rightarrow> (string \<times> jsval) list" where
  "spread (JObj fs) = fs"
| "spread (JArr xs) = map (\<lambda>(i, x). (nat_digits i, x)) (enumerate 0 xs)"
| "spread (JStr s) = map (\<lambda>(i, c). (nat_digits i, JStr [c])) (enumerate 0 s)"
| "spread v = []"

definition parse_tier :: "jsval \<Rightarrow> tier" where
  "parse_tier tier =
     \<lparr>t_title = trim (js_String (js_or (js_get tier ''title'') (JStr []))),
      t_min_quantity =
        parseInt10 (trim (js_String (js_or (js_get tier ''min_quantity'') (JStr [])))),
      t_percent_off =
        parseInt10 (trim (js_String (js_or (js_get tier ''percent_off'') (JStr [])))),
      t_spread = spread tier\<rparr>"

text \<open>The tier as the object that is stored; \<open>JSON.stringify\<close> writes \<open>NaN\<close> as \<open>null\<close>.\<close>

definition num_js :: "int option \<Rightarrow> jsval" where
  "num_js n = (case n of None \<Rightarrow> JNull | Some i \<Rightarrow> JNum (of_int i))"

definition tier_js :: "tier \<Rightarrow> jsval" where
  "tier_js tier =
     JObj (AList.update ''percent_off'' (num_js (t_percent_off tier))
            (AList.update ''min_quantity'' (num_js (t_min_quantity tier))
              (AList.update ''title'' (JStr (t_title tier)) (t_spread tier))))"

text \<open>\<open>typeof tier.discount_id === "string" && tier.discount_id.length > 0\<close>.\<close>

definition tier_discount_id :: "tier \<Rightarrow> string option" where
  "tier_discount_id tier = nonempty_string (js_get (JObj (t_spread tier)) ''discount_id'')"

text \<open>
  The predicate of \<open>parsedTiers.findIndex\<close>: no title, or a \<open>min_quantity\<close> that is not
  an integer at least 1, or a \<open>percent_off\<close> that is not an integer from 0 to 100.
\<close>

definition invalid_tier :: "tier \<Rightarrow> bool" where
  "invalid_tier tier =
     (t_title tier = [] \<or>
      (case t_min_quantity tier of None \<Rightarrow> True | Some q \<Rightarrow> q < 1) \<or>
      (case t_percent_off tier of None \<Rightarrow> True | Some p \<Rightarrow> p < 0 \<or> p > 100))"

fun find_index :: "('a \<Rightarrow> bool) \<Rightarrow> 'a list \<Rightarrow> nat option" where
  "find_index P [] = None"
| "find_index P (x # xs) =
     (if P x then Some 0 else map_option Suc (find_index P xs))"

text \<open>
  The key of \<open>sort((a, b) => a.min_quantity - b.min_quantity)\<close>. The sort runs on
  validated tiers, whose \<open>min_quantity\<close> is a number; \<open>Array.prototype.sort\<close> is stable,
  as \<open>sort_key\<close> is.
\<close>

definition min_key :: "tier \<Rightarrow> int" where
  "min_key tier = (case t_min_quantity tier of None \<Rightarrow> 0 | Some q \<Rightarrow> q)"

text \<open>
  An action answers \<open>{ok: false, errors}\<close> or \<open>{ok: true, ...}\<close>; it can also throw, and
  then answers nothing: the result of an action is an \<open>outcome option\<close> together with
  the requests made. The fields \<open>successKey\<close>, \<open>actionType\<close> and \<open>redirectTo\<close> of the
  answers hold the clock's time or constants and are left out.
\<close>

datatype 'a outcome = Errors "string list" | Ok 'a

record update_result =
  r_nextHandle :: string
  r_nextTitle :: string
  r_nextStatus :: string
  r_nextProducts :: "jsval list"
  r_nextTiers :: "tier list"

datatype rule_ok = Deleted | Updated update_result

text \<open>
  A field of the submitted form: \<open>String(formData.get(k) || d)\<close>, where \<open>get\<close> gives
  \<open>null\<close> for a missing field. \<open>params.tableHandle || ""\<close> is read the same way.
\<close>

definition form_text :: "string option \<Rightarrow> string \<Rightarrow> string" where
  "form_text v d = (case v of None \<Rightarrow> d | Some s \<Rightarrow> if s = [] then d else s)"

text \<open>
  \<open>discounts.findIndex((discount) => toKebabCase(discount?.title || "") === tableHandle)\<close>.
  \<open>toKebabCase\<close> calls \<open>trim\<close> on its argument: a title that is truthy and not a string
  throws a \<open>TypeError\<close>.
\<close>

datatype found = TypeError | NotFound | Found nat

definition rule_handle :: "jsval \<Rightarrow> string option" where
  "rule_handle discount =
     (case js_or (js_get discount ''title'') (JStr []) of
        JStr t \<Rightarrow> Some (toKebabCase t)
      | _ \<Rightarrow> None)"

fun findRuleIndex :: "jsval list \<Rightarrow> string \<Rightarrow> nat \<Rightarrow> found" where
  "findRuleIndex [] tableHandle index = NotFound"
| "findRuleIndex (discount # discounts) tableHandle index =
     (case rule_handle discount of
        None \<Rightarrow> TypeError
      | Some h \<Rightarrow>
          if h = tableHandle then Found index
          else findRuleIndex discounts tableHandle (Suc index))"

text \<open>
  \<open>[...(currentConfig.discounts || [])]\<close>: \<open>parseDiscountConfig\<close> only returns objects
  whose \<open>discounts\<close> is an array.
\<close>

definition config_discounts :: "jsval \<Rightarrow> jsval list" where
  "config_discounts currentConfig =
     array_items (js_or (js_get currentConfig ''discounts'') (JArr []))"

definition shop_metafield :: "string option \<Rightarrow> jsval list \<Rightarrow> metafield" where
  "shop_metafield shopId discounts =
     \<lparr>mf_ownerId = shopId,
      mf_namespace = QUANTITY_BREAKS_NAMESPACE,
      mf_key = QUANTITY_BREAKS_KEY,
      mf_type = ''json'',
      mf_value = ConfigJson discounts\<rparr>"

text \<open>
  The discount identifiers of the tiers of a stored rule:
  \<open>tiers.map((tier) => tier?.discount_id).filter((id) => typeof id === "string" && id.length > 0)\<close>.
\<close>

definition stored_discount_ids :: "jsval list \<Rightarrow> string list" where
  "stored_discount_ids tiers =
     List.map_filter (\<lambda>tier. nonempty_string (js_get tier ''discount_id'')) tiers"

text \<open>
  The loop that deletes discounts, in both actions: it returns the user errors of the
  first deletion that reports any, and makes no further request; \<open>[]\<close> when every
  deletion went through.
\<close>

fun delete_loop :: "admin \<Rightarrow> string list \<Rightarrow> request list \<Rightarrow> string list \<times> request list" where
  "delete_loop admin [] trace = ([], trace)"
| "delete_loop admin (discountId # discountIds) trace =
     (let (deleteResponse, trace') = graphql admin (DiscountDelete discountId) trace;
          deleteErrors = userErrors deleteResponse
      in if length deleteErrors > 0 then (deleteErrors, trace')
         else delete_loop admin discountIds trace')"

text \<open>
  For the statements about the actions: the rules the query of the shop gives after
  \<open>trace\<close>, and \<open>discounts[ruleIndex] || {}\<close>.
\<close>

definition stored_rules :: "(string \<Rightarrow> jsval option) \<Rightarrow> admin \<Rightarrow> request list \<Rightarrow> jsval list" where
  "stored_rules JSON_parse admin trace =
     config_discounts (parseDiscountConfig JSON_parse (metafield_text (admin trace ShopQuery)))"

definition rule_at :: "jsval list \<Rightarrow> nat \<Rightarrow> jsval" where
  "rule_at discounts ruleIndex = js_or (discounts ! ruleIndex) (JObj [])"

text \<open>
  For the statements about the tiers that are stored: \<open>attached p t\<close> says that \<open>t\<close> is
  the submitted tier \<open>p\<close>, or \<open>p\<close> with the identifier of the discount created for it.
\<close>

definition attached :: "tier \<Rightarrow> tier \<Rightarrow> bool" where
  "attached p t =
     (t = p \<or>
      (case map_of (t_spread t) ''discount_id'' of
         Some (JStr d) \<Rightarrow> t = p\<lparr>t_spread := AList.update ''discount_id'' (JStr d) (t_spread p)\<rparr>
       | _ \<Rightarrow> False))"

definition document_write :: "string option \<Rightarrow> jsval list \<Rightarrow> request" where
  "document_write shopId discounts = MetafieldsSet [shop_metafield shopId discounts]"

text \<open>
  For the statements about the loop: the \<open>i\<close>-th deletion of \<open>ids\<close>, made after
  \<open>trace\<close> and the deletions before it, reports no user error.
\<close>

definition delete_accepted :: "admin \<Rightarrow> request list \<Rightarrow> string list \<Rightarrow> nat \<Rightarrow> bool" where
  "delete_accepted admin trace ids i =
     (userErrors (admin (trace @ map DiscountDelete (take i ids)) (DiscountDelete (ids ! i))) = [])"

text \<open>\<open>discounts.filter((_, index) => index !== ruleIndex)\<close>.\<close>

definition without_index :: "nat \<Rightarrow> 'a list \<Rightarrow> 'a list" where
  "without_index ruleIndex discounts =
     map snd (filter (\<lambda>(index, _). index \<noteq> ruleIndex) (enumerate 0 discounts))"

text \<open>The end of both actions: the projections are written again.\<close>

definition reproject ::
  "admin \<Rightarrow> jsval list \<Rightarrow> string list \<Rightarrow> request list \<Rightarrow> string list option \<times> request list" where
  "reproject admin discounts affectedProductIds trace =
     recomputeProductDiscountProjectionMetafields admin (JArr discounts)
       (JArr (map JStr affectedProductIds)) trace"

definition delete_rule ::
  "(string \<Rightarrow> jsval option) \<Rightarrow> admin \<Rightarrow> string \<Rightarrow> request list
     \<Rightarrow> rule_ok outcome option \<times> request list" where
  "delete_rule JSON_parse admin tableHandle trace0 =
     (let (shopResponse, trace1) = graphql admin ShopQuery trace0;
          shopId = shop_id shopResponse;
          currentConfig = parseDiscountConfig JSON_parse (metafield_text shopResponse);
          discounts = config_discounts currentConfig
      in case findRuleIndex discounts tableHandle 0 of
           TypeError \<Rightarrow> (None, trace1)
         | NotFound \<Rightarrow> (Some (Errors [''Rule not found.'']), trace1)
         | Found ruleIndex \<Rightarrow>
             (let rule = js_or (discounts ! ruleIndex) (JObj [])
              in case getRuleProductIds rule of
                   None \<Rightarrow> (None, trace1)
                 | Some affectedProductIds \<Rightarrow>
                     (let discountIds = stored_discount_ids (array_items (js_get rule ''tiers''));
                          (deleteErrors, trace2) = delete_loop admin discountIds trace1
                      in if length deleteErrors > 0 then (Some (Errors deleteErrors), trace2)
                         else
                           (let nextDiscounts = without_index ruleIndex discounts;
                                (setResponse, trace3) =
                                   graphql admin
                                     (MetafieldsSet [shop_metafield shopId nextDiscounts]) trace2;
                                setErrors = userErrors setResponse
                            in if length setErrors > 0 then (Some (Errors setErrors), trace3)
                               else
                                 (case reproject admin nextDiscounts affectedProductIds trace3 of
                                    (None, trace4) \<Rightarrow> (None, trace4)
                                  | (Some projectionErrors, trace4) \<Rightarrow>
                                      if length projectionErrors > 0
                                      then (Some (Errors projectionErrors), trace4)
                                      else (Some (Ok Deleted), trace4))))))"

text \<open>
  The first part of the update: reading the form and validating it, before any
  request. \<open>JSON.parse\<close> of a field gives an array, or \<open>[]\<close> when it throws or gives
  another value. The result is the errors returned, or the validated title, status,
  product identifiers and tiers, the tiers sorted.
\<close>

record update_form =
  f_action :: "string option"
  f_title :: "string option"
  f_status :: "string option"
  f_tiers :: "string option"
  f_products :: "string option"

definition parse_array :: "(string \<Rightarrow> jsval option) \<Rightarrow> string \<Rightarrow> jsval list" where
  "parse_array JSON_parse text =
     (case JSON_parse text of None \<Rightarrow> [] | Some v \<Rightarrow> array_items v)"

record validated =
  v_title :: string
  v_status :: string
  v_productIds :: "string list"
  v_tiers :: "tier list"

definition tier_message :: "nat \<Rightarrow> string" where
  "tier_message n =
     ''Tier '' @ nat_digits n @
     '' must have a title, minimum quantity (>= 1), and percent discount (0-100).''"

definition form_title :: "update_form \<Rightarrow> string" where
  "form_title form = trim (form_text (f_title form) [])"

definition form_status :: "update_form \<Rightarrow> string" where
  "form_status form = toLowerCase (trim (form_text (f_status form) ''active''))"

definition form_product_ids :: "(string \<Rightarrow> jsval option) \<Rightarrow> update_form \<Rightarrow> string list" where
  "form_product_ids JSON_parse form =
     normalizeProductIds (JArr (parse_array JSON_parse (form_text (f_products form) ''[]'')))"

definition form_tiers :: "(string \<Rightarrow> jsval option) \<Rightarrow> update_form \<Rightarrow> tier list" where
  "form_tiers JSON_parse form =
     map parse_tier (parse_array JSON_parse (form_text (f_tiers form) ''[]''))"

definition update_validate ::
  "(string \<Rightarrow> jsval option) \<Rightarrow> update_form \<Rightarrow> string list + validated" where
  "update_validate JSON_parse form =
     (let nextTitle = form_title form;
          nextStatus = form_status form
      in if nextTitle = [] then Inl [''Title is required.'']
         else if nextStatus \<noteq> ''active'' \<and> nextStatus \<noteq> ''inactive''
         then Inl [''Status must be Active or Inactive.'']
         else
           (let nextProductIds = form_product_ids JSON_parse form
            in if length nextProductIds = 0
               then Inl [''At least one product is required for this rule.'']
               else
                 (let parsedTiers = form_tiers JSON_parse form
                  in if length parsedTiers = 0
                     then Inl [''At least one discount tier is required.'']
                     else
                       (case find_index invalid_tier parsedTiers of
                          Some invalidTierIndex \<Rightarrow> Inl [tier_message (invalidTierIndex + 1)]
                        | None \<Rightarrow>
                            Inr \<lparr>v_title = nextTitle, v_status = nextStatus,
                                 v_productIds = nextProductIds,
                                 v_tiers = sort_key min_key parsedTiers\<rparr>))))"

text \<open>
  What the loop over the tiers does not change: the product identifiers, whether they
  changed (the sorted lists differ in length or at some index), those added and those
  removed, and the \<open>Map\<close> from discount identifier to the stored tier.
\<close>

record update_ctx =
  c_productIds :: "string list"
  c_productsChanged :: bool
  c_addedProductIds :: "string list"
  c_removedProductIds :: "string list"
  c_previousTierByDiscountId :: "(string \<times> jsval) list"

definition update_context :: "jsval list \<Rightarrow> string list \<Rightarrow> string list \<Rightarrow> update_ctx" where
  "update_context previousTiers previousProductIds productIds =
     (let sortedPreviousProductIds = sort previousProductIds;
          sortedNextProductIds = sort productIds
      in \<lparr>c_productIds = productIds,
          c_productsChanged =
            (length sortedPreviousProductIds \<noteq> length sortedNextProductIds \<or>
             list_ex (\<lambda>(id, other). id \<noteq> other)
               (zip sortedPreviousProductIds sortedNextProductIds)),
          c_addedProductIds = filter (\<lambda>id. id \<notin> set previousProductIds) productIds,
          c_removedProductIds = filter (\<lambda>id. id \<notin> set productIds) previousProductIds,
          c_previousTierByDiscountId =
            foldl (\<lambda>m (k, v). AList.update k v m) []
              (List.map_filter
                 (\<lambda>tier. map_option (\<lambda>d. (d, tier)) (nonempty_string (js_get tier ''discount_id'')))
                 previousTiers)\<rparr>)"

text \<open>
  The constants of the loop's body. \<open>a !== b\<close> on numbers holds whenever one is \<open>NaN\<close>.
  \<open>previousTier\<close> is \<open>null\<close> (\<open>None\<close>) for a tier without identifier and \<open>undefined\<close>
  (\<open>None\<close>) when the \<open>Map\<close> has no entry.
\<close>

definition num_neq :: "int option \<Rightarrow> int option \<Rightarrow> bool" where
  "num_neq a b = (case (a, b) of (Some x, Some y) \<Rightarrow> x \<noteq> y | _ \<Rightarrow> True)"

definition previousTier :: "update_ctx \<Rightarrow> tier \<Rightarrow> jsval option" where
  "previousTier ctx tier =
     (case tier_discount_id tier of
        None \<Rightarrow> None
      | Some d \<Rightarrow> map_of (c_previousTierByDiscountId ctx) d)"

definition tierChanged :: "update_ctx \<Rightarrow> tier \<Rightarrow> bool" where
  "tierChanged ctx tier =
     (case previousTier ctx tier of
        None \<Rightarrow> True
      | Some p \<Rightarrow>
          \<not> truthy p \<or>
          trim (js_String (js_or (js_get p ''title'') (JStr []))) \<noteq> t_title tier \<or>
          num_neq (parseInt10 (trim (js_String (js_or (js_get p ''min_quantity'') (JStr [])))))
            (t_min_quantity tier) \<or>
          num_neq (parseInt10 (trim (js_String (js_or (js_get p ''percent_off'') (JStr [])))))
            (t_percent_off tier))"

definition shouldCreateDiscount :: "tier \<Rightarrow> bool" where
  "shouldCreateDiscount tier = (tier_discount_id tier = None)"

definition shouldUpdateExistingDiscount :: "update_ctx \<Rightarrow> tier \<Rightarrow> bool" where
  "shouldUpdateExistingDiscount ctx tier =
     (tier_discount_id tier \<noteq> None \<and> (tierChanged ctx tier \<or> c_productsChanged ctx))"

definition productsInput :: "update_ctx \<Rightarrow> tier \<Rightarrow> products_input" where
  "productsInput ctx tier =
     (if shouldUpdateExistingDiscount ctx tier \<and> c_productsChanged ctx
      then \<lparr>productsToAdd =
              (if length (c_addedProductIds ctx) > 0 then Some (c_addedProductIds ctx) else None),
            productsToRemove =
              (if length (c_removedProductIds ctx) > 0 then Some (c_removedProductIds ctx)
               else None)\<rparr>
      else \<lparr>productsToAdd = Some (c_productIds ctx), productsToRemove = None\<rparr>)"

definition num_String :: "int option \<Rightarrow> string" where
  "num_String n = (case n of None \<Rightarrow> ''NaN'' | Some i \<Rightarrow> js_String (JNum (of_int i)))"

definition discountInputBase :: "update_ctx \<Rightarrow> tier \<Rightarrow> discount_input" where
  "discountInputBase ctx tier =
     \<lparr>di_title = t_title tier,
      di_quantity = num_String (t_min_quantity tier),
      di_percentage = map_option (\<lambda>p. of_int p / 100) (t_percent_off tier),
      di_products = productsInput ctx tier\<rparr>"

text \<open>
  The loop over the tiers. It ends with the tiers and their identifiers, or leaves the
  action through one of three returns: the product list is empty, a mutation reports
  user errors, or a creation gives no identifier.
\<close>

datatype loop_result =
    NoProducts
  | RemoteErrors "string list"
  | NoCreatedId
  | Reconciled "tier list"

fun reconcile_tiers ::
  "admin \<Rightarrow> update_ctx \<Rightarrow> tier list \<Rightarrow> tier list \<Rightarrow> request list
     \<Rightarrow> loop_result \<times> request list" where
  "reconcile_tiers admin ctx [] tiersWithDiscountIds trace =
     (Reconciled tiersWithDiscountIds, trace)"
| "reconcile_tiers admin ctx (tier # tiers) tiersWithDiscountIds trace =
     (if \<not> shouldCreateDiscount tier \<and> \<not> shouldUpdateExistingDiscount ctx tier
      then reconcile_tiers admin ctx tiers (tiersWithDiscountIds @ [tier]) trace
      else if length (c_productIds ctx) = 0 then (NoProducts, trace)
      else if shouldUpdateExistingDiscount ctx tier then
        (let (updateResponse, trace') =
               graphql admin
                 (DiscountUpdate (js_String (js_get (JObj (t_spread tier)) ''discount_id''))
                    (discountInputBase ctx tier)) trace;
             updateErrors = userErrors updateResponse
         in if length updateErrors > 0 then (RemoteErrors updateErrors, trace')
            else reconcile_tiers admin ctx tiers (tiersWithDiscountIds @ [tier]) trace')
      else
        (let (createResponse, trace') =
               graphql admin (DiscountCreate (discountInputBase ctx tier)) trace;
             createErrors = userErrors createResponse
         in if length createErrors > 0 then (RemoteErrors createErrors, trace')
            else
              (case node_id createResponse of
                 None \<Rightarrow> (NoCreatedId, trace')
               | Some createdDiscountId \<Rightarrow>
                   if createdDiscountId = [] then (NoCreatedId, trace')
                   else reconcile_tiers admin ctx tiers
                          (tiersWithDiscountIds @
                             [tier\<lparr>t_spread :=
                                 AList.update ''discount_id'' (JStr createdDiscountId)
                                   (t_spread tier)\<rparr>])
                          trace')))"

text \<open>
  The loop over the identifiers of the final tiers: \<open>discountAutomaticDeactivate\<close> for
  an inactive rule, \<open>discountAutomaticActivate\<close> otherwise; the answers are not read.
\<close>

fun status_loop :: "admin \<Rightarrow> string \<Rightarrow> string list \<Rightarrow> request list \<Rightarrow> request list" where
  "status_loop admin nextStatus [] trace = trace"
| "status_loop admin nextStatus (discountId # discountIds) trace =
     status_loop admin nextStatus discountIds
       (snd (graphql admin
               (if nextStatus = ''inactive'' then DiscountDeactivate discountId
                else DiscountActivate discountId) trace))"

text \<open>\<open>{...rule, title: nextTitle, status: nextStatus, products: productIds, tiers: nextTiers}\<close>.\<close>

definition updated_rule :: "jsval \<Rightarrow> string \<Rightarrow> string \<Rightarrow> string list \<Rightarrow> tier list \<Rightarrow> jsval" where
  "updated_rule rule title status productIds tiers =
     JObj (AList.update ''tiers'' (JArr (map tier_js tiers))
            (AList.update ''products'' (JArr (map JStr productIds))
              (AList.update ''status'' (JStr status)
                (AList.update ''title'' (JStr title) (spread rule)))))"

text \<open>
  \<open>fetchProductSummaries\<close>: the summaries the service knows, by identifier, and
  \<open>{id, title: id, image: ""}\<close> for the others.
\<close>

definition fetchProductSummaries ::
  "admin \<Rightarrow> string list \<Rightarrow> request list \<Rightarrow> jsval list \<times> request list" where
  "fetchProductSummaries admin productIds trace =
     (if length productIds = 0 then ([], trace)
      else
        (let (response, trace') = graphql admin (ProductSummaries productIds) trace;
             productById =
               foldl (\<lambda>m node.
                        AList.update (js_get node ''id'')
                          (JObj [(''id'', js_get node ''id''),
                                 (''title'', js_or (js_get node ''title'') (JStr [])),
                                 (''image'',
                                    js_or (js_get (js_get node ''featuredImage'') ''url'') (JStr []))])
                          m)
                 [] (filter (\<lambda>node. truthy (js_get node ''id'')) (array_items (nodes response)))
         in (map (\<lambda>id. case map_of productById (JStr id) of
                          Some p \<Rightarrow> p
                        | None \<Rightarrow> JObj [(''id'', JStr id), (''title'', JStr id),
                                          (''image'', JStr [])])
               productIds,
             trace')))"

text \<open>
  The second part of the update, from the query of the shop to the write of the
  document. It ends with an answer (or a throw), or with the document written:
  the rules as written, the previous product identifiers and the final tiers.
\<close>

record committed =
  k_discounts :: "jsval list"
  k_previousProductIds :: "string list"
  k_tiers :: "tier list"

definition loop_errors :: "loop_result \<Rightarrow> string list" where
  "loop_errors r =
     (case r of
        NoProducts \<Rightarrow> [''This rule must have at least one product.'']
      | RemoteErrors es \<Rightarrow> es
      | NoCreatedId \<Rightarrow> [''Failed to create tier discount in Shopify.'']
      | Reconciled ts \<Rightarrow> [])"

definition update_commit ::
  "(string \<Rightarrow> jsval option) \<Rightarrow> admin \<Rightarrow> string \<Rightarrow> validated \<Rightarrow> request list
     \<Rightarrow> (rule_ok outcome option + committed) \<times> request list" where
  "update_commit JSON_parse admin tableHandle v trace0 =
     (let (shopResponse, trace1) = graphql admin ShopQuery trace0;
          shopId = shop_id shopResponse;
          currentConfig = parseDiscountConfig JSON_parse (metafield_text shopResponse);
          discounts = config_discounts currentConfig
      in case findRuleIndex discounts tableHandle 0 of
           TypeError \<Rightarrow> (Inl None, trace1)
         | NotFound \<Rightarrow> (Inl (Some (Errors [''Rule not found.''])), trace1)
         | Found ruleIndex \<Rightarrow>
             (let rule = js_or (discounts ! ruleIndex) (JObj []);
                  previousTiers = array_items (js_get rule ''tiers'')
              in case getRuleProductIds rule of
                   None \<Rightarrow> (Inl None, trace1)
                 | Some previousProductIds \<Rightarrow>
                     (let ctx = update_context previousTiers previousProductIds (v_productIds v);
                          previousDiscountIds = stored_discount_ids previousTiers
                      in case reconcile_tiers admin ctx (v_tiers v) [] trace1 of
                           (Reconciled tiersWithDiscountIds, trace2) \<Rightarrow>
                             (let nextTiers = sort_key min_key tiersWithDiscountIds;
                                  nextDiscountIds = List.map_filter tier_discount_id nextTiers;
                                  removedDiscountIds =
                                    filter (\<lambda>discountId. discountId \<notin> set nextDiscountIds)
                                      previousDiscountIds;
                                  (deleteErrors, trace3) =
                                    delete_loop admin removedDiscountIds trace2
                              in if length deleteErrors > 0
                                 then (Inl (Some (Errors deleteErrors)), trace3)
                                 else
                                   (let trace4 =
                                          status_loop admin (v_status v) nextDiscountIds trace3;
                                        discounts' =
                                          discounts[ruleIndex :=
                                            updated_rule rule (v_title v) (v_status v)
                                              (v_productIds v) nextTiers];
                                        (setResponse, trace5) =
                                          graphql admin
                                            (MetafieldsSet [shop_metafield shopId discounts'])
                                            trace4;
                                        setErrors = userErrors setResponse
                                    in if length setErrors > 0
                                       then (Inl (Some (Errors setErrors)), trace5)
                                       else (Inr \<lparr>k_discounts = discounts',
                                                  k_previousProductIds = previousProductIds,
                                                  k_tiers = nextTiers\<rparr>, trace5)))
                         | (stopped, trace2) \<Rightarrow>
                             (Inl (Some (Errors (loop_errors stopped))), trace2))))"

text \<open>
  The third part, after the document is written: the projections of the previous and
  the new products are written again, the summaries of the products are fetched, and
  the answer is built.
\<close>

definition update_finish ::
  "admin \<Rightarrow> validated \<Rightarrow> committed \<Rightarrow> request list \<Rightarrow> rule_ok outcome option \<times> request list" where
  "update_finish admin v k trace5 =
     (let affectedProductIds = from_set (k_previousProductIds k @ v_productIds v)
      in case reproject admin (k_discounts k) affectedProductIds trace5 of
           (None, trace6) \<Rightarrow> (None, trace6)
         | (Some projectionErrors, trace6) \<Rightarrow>
             if length projectionErrors > 0 then (Some (Errors projectionErrors), trace6)
             else
               (let (products, trace7) = fetchProductSummaries admin (v_productIds v) trace6
                in (Some (Ok (Updated
                      \<lparr>r_nextHandle = toKebabCase (v_title v), r_nextTitle = v_title v,
                       r_nextStatus = v_status v, r_nextProducts = products,
                       r_nextTiers = k_tiers k\<rparr>)), trace7)))"

definition update_rule ::
  "(string \<Rightarrow> jsval option) \<Rightarrow> admin \<Rightarrow> string \<Rightarrow> update_form \<Rightarrow> request list
     \<Rightarrow> rule_ok outcome option \<times> request list" where
  "update_rule JSON_parse admin tableHandle form trace0 =
     (case update_validate JSON_parse form of
        Inl errors \<Rightarrow> (Some (Errors errors), trace0)
      | Inr v \<Rightarrow>
          (case update_commit JSON_parse admin tableHandle v trace0 of
             (Inl answer, trace) \<Rightarrow> (answer, trace)
           | (Inr k, trace5) \<Rightarrow> update_finish admin v k trace5))"

text \<open>The action of the rule page.\<close>

definition rule_action ::
  "(string \<Rightarrow> jsval option) \<Rightarrow> admin \<Rightarrow> string option \<Rightarrow> update_form \<Rightarrow> request list
     \<Rightarrow> rule_ok outcome option \<times> request list" where
  "rule_action JSON_parse admin tableHandle form trace0 =
     (let actionType = form_text (f_action form) []
      in if actionType \<noteq> ''update-rule-settings'' \<and> actionType \<noteq> ''delete-rule''
         then (Some (Errors [''Unknown action'']), trace0)
         else if actionType = ''delete-rule''
         then delete_rule JSON_parse admin (form_text tableHandle []) trace0
         else update_rule JSON_parse admin (form_text tableHandle []) form trace0)"

section \<open>The index page: creating a rule or adding a tier to it\<close>

record create_form =
  g_action :: "string option"
  g_title :: "string option"
  g_discountTitle :: "string option"
  g_minimumQuantity :: "string option"
  g_percentOff :: "string option"
  g_selectedProducts :: "string option"

definition create_title :: "create_form \<Rightarrow> string" where
  "create_title form = trim (form_text (g_title form) [])"

definition create_discountTitle :: "create_form \<Rightarrow> string" where
  "create_discountTitle form = trim (form_text (g_discountTitle form) [])"

definition create_minimumQuantity :: "create_form \<Rightarrow> int option" where
  "create_minimumQuantity form = parseInt10 (form_text (g_minimumQuantity form) ''0'')"

definition create_percentOff :: "create_form \<Rightarrow> int option" where
  "create_percentOff form = parseInt10 (form_text (g_percentOff form) ''0'')"

definition create_product_ids :: "(string \<Rightarrow> jsval option) \<Rightarrow> create_form \<Rightarrow> string list" where
  "create_product_ids JSON_parse form =
     normalizeProductIds
       (JArr (map (\<lambda>product. js_get product ''id'')
                (parse_array JSON_parse (form_text (g_selectedProducts form) ''[]''))))"

text \<open>The errors of the validation, all of them, in the order they are pushed.\<close>

definition create_errors :: "(string \<Rightarrow> jsval option) \<Rightarrow> create_form \<Rightarrow> string list" where
  "create_errors JSON_parse form =
     (if create_title form = [] then [''Title is required.''] else []) @
     (if create_discountTitle form = [] then [''Discount title is required.''] else []) @
     (if (case create_minimumQuantity form of None \<Rightarrow> True | Some q \<Rightarrow> q < 1)
      then [''Minimum product quantity must be a whole number greater than 0.''] else []) @
     (if (case create_percentOff form of None \<Rightarrow> True | Some p \<Rightarrow> p < 1 \<or> p > 100)
      then [''Percent off must be a whole number between 1 and 100.''] else []) @
     (if length (create_product_ids JSON_parse form) = 0
      then [''Select at least one product.''] else [])"

definition create_input :: "(string \<Rightarrow> jsval option) \<Rightarrow> create_form \<Rightarrow> discount_input" where
  "create_input JSON_parse form =
     \<lparr>di_title = create_discountTitle form,
      di_quantity = num_String (create_minimumQuantity form),
      di_percentage = map_option (\<lambda>p. of_int p / 100) (create_percentOff form),
      di_products = \<lparr>productsToAdd = Some (create_product_ids JSON_parse form),
                     productsToRemove = None\<rparr>\<rparr>"

text \<open>
  The new tier. Its \<open>discount_id\<close> is \<open>undefined\<close> when the service gave none, a
  property \<open>JSON.stringify\<close> leaves out.
\<close>

definition newTier :: "create_form \<Rightarrow> string option \<Rightarrow> jsval" where
  "newTier form discountId =
     JObj ([(''min_quantity'', num_js (create_minimumQuantity form)),
            (''percent_off'', num_js (create_percentOff form)),
            (''title'', JStr (create_discountTitle form))] @
           (case discountId of None \<Rightarrow> [] | Some d \<Rightarrow> [(''discount_id'', JStr d)]))"

text \<open>\<open>nextDiscounts.findIndex((discount) => discount?.title === title)\<close>.\<close>

definition existingIndex :: "jsval list \<Rightarrow> string \<Rightarrow> nat option" where
  "existingIndex discounts title =
     find_index (\<lambda>discount. js_get discount ''title'' = JStr title) discounts"

text \<open>The document after the tier is added to the rule of that title, or a rule appended.\<close>

definition with_new_tier :: "jsval list \<Rightarrow> string \<Rightarrow> string list \<Rightarrow> jsval \<Rightarrow> jsval list" where
  "with_new_tier discounts title normalizedProductIds tier =
     (case existingIndex discounts title of
        Some i \<Rightarrow>
          discounts[i :=
            JObj (AList.update ''tiers''
                    (JArr (array_items (js_get (discounts ! i) ''tiers'') @ [tier]))
                   (AList.update ''status''
                      (js_or (js_get (discounts ! i) ''status'') (JStr ''active''))
                     (AList.update ''products'' (JArr (map JStr normalizedProductIds))
                       (AList.update ''title'' (JStr title) (spread (discounts ! i))))))]
      | None \<Rightarrow>
          discounts @
            [JObj [(''title'', JStr title),
                   (''products'', JArr (map JStr normalizedProductIds)),
                   (''status'', JStr ''active''),
                   (''tiers'', JArr [tier])]])"

definition create_rule ::
  "(string \<Rightarrow> jsval option) \<Rightarrow> admin \<Rightarrow> create_form \<Rightarrow> request list
     \<Rightarrow> unit outcome option \<times> request list" where
  "create_rule JSON_parse admin form trace0 =
     (if g_action form \<noteq> Some ''add-discount'' then (Some (Errors [''Unknown action'']), trace0)
      else
        (let title = create_title form;
             normalizedProductIds = create_product_ids JSON_parse form;
             errors = create_errors JSON_parse form
         in if length errors > 0 then (Some (Errors errors), trace0)
            else
              (let (shopResponse, trace1) = graphql admin ShopQuery trace0;
                   shopId = shop_id shopResponse;
                   currentConfig = parseDiscountConfig JSON_parse (metafield_text shopResponse);
                   (discountResponse, trace2) =
                     graphql admin (DiscountCreate (create_input JSON_parse form)) trace1;
                   discountErrors = userErrors discountResponse
               in if length discountErrors > 0 then (Some (Errors discountErrors), trace2)
                  else
                    (let discountId = node_id discountResponse;
                         discounts = config_discounts currentConfig;
                         existing = existingIndex discounts title
                     in case (case existing of
                                None \<Rightarrow> Some []
                              | Some i \<Rightarrow> getRuleProductIds (discounts ! i)) of
                          None \<Rightarrow> (None, trace2)
                        | Some previousRuleProductIds \<Rightarrow>
                            (let existingRuleStatus =
                                   (if (case existing of
                                          None \<Rightarrow> False
                                        | Some i \<Rightarrow>
                                            js_get (discounts ! i) ''status'' = JStr ''inactive'')
                                    then ''inactive'' else ''active'');
                                 trace3 =
                                   (case discountId of
                                      None \<Rightarrow> trace2
                                    | Some d \<Rightarrow>
                                        if existingRuleStatus = ''inactive'' \<and> d \<noteq> []
                                        then snd (graphql admin (DiscountDeactivate d) trace2)
                                        else trace2);
                                 nextDiscounts =
                                   with_new_tier discounts title normalizedProductIds
                                     (newTier form discountId);
                                 (metafieldSetResponse, trace4) =
                                   graphql admin
                                     (MetafieldsSet [shop_metafield shopId nextDiscounts]) trace3;
                                 metafieldErrors = userErrors metafieldSetResponse
                             in if length metafieldErrors > 0
                                then (Some (Errors metafieldErrors), trace4)
                                else
                                  (let affectedProductIds =
                                         from_set (previousRuleProductIds @ normalizedProductIds)
                                   in case reproject admin nextDiscounts affectedProductIds trace4 of
                                        (None, trace5) \<Rightarrow> (None, trace5)
                                      | (Some projectionErrors, trace5) \<Rightarrow>
                                          if length projectionErrors > 0
                                          then (Some (Errors projectionErrors), trace5)
                                          else (Some (Ok ()), trace5)))))))"

section \<open>Example inputs\<close>

definition product_1 :: string where
  "product_1 = ''gid://shopify/Product/1''"

definition product_2 :: string where
  "product_2 = ''gid://shopify/Product/2''"

definition product_3 :: string where
  "product_3 = ''gid://shopify/Product/3''"

text \<open>
  A document of two rules, the first with its tiers stored out of order, and the
  texts of forms, each with the value \<open>JSON.parse\<close> gives for it.
\<close>

definition example_discounts :: jsval where
  "example_discounts =
     JArr [JObj [(''title'', JStr ''Bulk A''),
                 (''status'', JStr ''active''),
                 (''products'', JArr [JStr product_1, JStr product_2]),
                 (''tiers'', JArr [JObj [(''title'', JStr ''Five''), (''min_quantity'', JNum 5),
                                         (''percent_off'', JNum 10), (''discount_id'', JStr ''d1'')],
                                   JObj [(''title'', JStr ''Two''), (''min_quantity'', JNum 2),
                                         (''percent_off'', JNum 5), (''discount_id'', JStr ''d2'')]])],
           JObj [(''title'', JStr ''Bulk B''),
                 (''status'', JStr ''inactive''),
                 (''products'', JArr [JStr product_1]),
                 (''tiers'', JArr [JObj [(''title'', JStr ''Five B''), (''min_quantity'', JNum 5),
                                         (''percent_off'', JNum 20), (''discount_id'', JStr ''d3'')]])]]"

definition config_text :: string where
  "config_text =
       ''{\"discounts\":[{\"title\":\"Bulk A\",\"status\":\"active\",\"products\":[\"gid:'' @
       ''//shopify/Product/1\",\"gid://shopify/Product/2\"],\"tiers\":[{\"title\":\"Five\",'' @
       ''\"min_quantity\":5,\"percent_off\":10,\"discount_id\":\"d1\"},{\"title\":\"Two\",'' @
       ''\"min_quantity\":2,\"percent_off\":5,\"discount_id\":\"d2\"}]},{\"title\":\"Bulk B\",'' @
       ''\"status\":\"inactive\",\"products\":[\"gid://shopify/Product/1\"],\"tiers\":[{\"title\":'' @
       ''\"Five B\",\"min_quantity\":5,\"percent_off\":20,\"discount_id\":\"d3\"}]}]}''"

definition config_value :: jsval where
  "config_value = JObj [(''discounts'', example_discounts)]"

definition tiers_unchanged_text :: string where
  "tiers_unchanged_text =
       ''[{\"title\":\"Five\",\"min_quantity\":\"5\",\"percent_off\":\"10\",\"discount_id\":'' @
       ''\"d1\"},{\"title\":\"Two\",\"min_quantity\":\"2\",\"percent_off\":\"5\",\"discount_id\":'' @
       ''\"d2\"}]''"

definition tiers_unchanged_value :: jsval where
  "tiers_unchanged_value =
     JArr [JObj [(''title'', JStr ''Five''), (''min_quantity'', JStr ''5''),
       (''percent_off'', JStr ''10''), (''discount_id'', JStr ''d1'')],
       JObj [(''title'', JStr ''Two''), (''min_quantity'', JStr ''2''),
       (''percent_off'', JStr ''5''), (''discount_id'', JStr ''d2'')]]"

definition tiers_renamed_text :: string where
  "tiers_renamed_text =
       ''[{\"title\":\"Five plus\",\"min_quantity\":\"5\",\"percent_off\":\"10\",\"discount_id\":'' @
       ''\"d1\"},{\"title\":\"Two\",\"min_quantity\":\"2\",\"percent_off\":\"5\",\"discount_id\":'' @
       ''\"d2\"}]''"

definition tiers_renamed_value :: jsval where
  "tiers_renamed_value =
     JArr [JObj [(''title'', JStr ''Five plus''), (''min_quantity'', JStr ''5''),
       (''percent_off'', JStr ''10''), (''discount_id'', JStr ''d1'')],
       JObj [(''title'', JStr ''Two''), (''min_quantity'', JStr ''2''),
       (''percent_off'', JStr ''5''), (''discount_id'', JStr ''d2'')]]"

definition tiers_new_first_text :: string where
  "tiers_new_first_text =
       ''[{\"title\":\"Ten\",\"min_quantity\":\"10\",\"percent_off\":\"15\",\"discount_id\":'' @
       ''\"\"},{\"title\":\"Five\",\"min_quantity\":\"5\",\"percent_off\":\"10\",\"discount_id\":'' @
       ''\"d1\"}]''"

definition tiers_new_first_value :: jsval where
  "tiers_new_first_value =
     JArr [JObj [(''title'', JStr ''Ten''), (''min_quantity'', JStr ''10''),
       (''percent_off'', JStr ''15''), (''discount_id'', JStr '''')], JObj [(''title'',
       JStr ''Five''), (''min_quantity'', JStr ''5''), (''percent_off'', JStr ''10''),
       (''discount_id'', JStr ''d1'')]]"

definition tiers_second_invalid_text :: string where
  "tiers_second_invalid_text =
       ''[{\"title\":\"T\",\"min_quantity\":3,\"percent_off\":10},{\"title\":\"T\",\"min_quantity\":'' @
       ''0,\"percent_off\":10}]''"

definition tiers_second_invalid_value :: jsval where
  "tiers_second_invalid_value =
     JArr [JObj [(''title'', JStr ''T''), (''min_quantity'', JNum 3), (''percent_off'',
       JNum 10)], JObj [(''title'', JStr ''T''), (''min_quantity'', JNum 0),
       (''percent_off'', JNum 10)]]"

definition products_12_text :: string where
  "products_12_text =
       ''[{\"id\":\"gid://shopify/Product/1\"},{\"id\":\"gid://shopify/Product/2\"}]''"

definition products_12_value :: jsval where
  "products_12_value =
     JArr [JObj [(''id'', JStr ''gid://shopify/Product/1'')], JObj [(''id'',
       JStr ''gid://shopify/Product/2'')]]"

definition products_23_text :: string where
  "products_23_text =
       ''[{\"id\":\"gid://shopify/Product/2\"},{\"id\":\"gid://shopify/Product/3\"}]''"

definition products_23_value :: jsval where
  "products_23_value =
     JArr [JObj [(''id'', JStr ''gid://shopify/Product/2'')], JObj [(''id'',
       JStr ''gid://shopify/Product/3'')]]"

text \<open>\<open>JSON.parse\<close> on the texts of the examples; it rejects every other text.\<close>

definition example_parse :: "string \<Rightarrow> jsval option" where
  "example_parse =
     map_of [(config_text, config_value),
             (tiers_unchanged_text, tiers_unchanged_value),
             (tiers_renamed_text, tiers_renamed_value),
             (tiers_new_first_text, tiers_new_first_value),
             (tiers_second_invalid_text, tiers_second_invalid_value),
             (products_12_text, products_12_value),
             (products_23_text, products_23_value),
             (''[]'', JArr []),
             (''[1]'', JArr [JNum 1]),
             (''{\"discounts\":1}'', JObj [(''discounts'', JNum 1)]),
             (''{\"discounts\":[]}'', JObj [(''discounts'', JArr [])])]"


definition form_unchanged_23 :: update_form where
  "form_unchanged_23 = \<lparr>f_action = Some ''update-rule-settings'', f_title = Some ''Bulk A'',
       f_status = Some ''active'', f_tiers = Some tiers_unchanged_text,
       f_products = Some products_23_text\<rparr>"

definition form_renamed_23 :: update_form where
  "form_renamed_23 = \<lparr>f_action = Some ''update-rule-settings'', f_title = Some ''Bulk A'',
       f_status = Some ''active'', f_tiers = Some tiers_renamed_text,
       f_products = Some products_23_text\<rparr>"

definition form_renamed_12 :: update_form where
  "form_renamed_12 = \<lparr>f_action = Some ''update-rule-settings'', f_title = Some ''Bulk A'',
       f_status = Some ''active'', f_tiers = Some tiers_renamed_text,
       f_products = Some products_12_text\<rparr>"

definition form_new_first :: update_form where
  "form_new_first = \<lparr>f_action = Some ''update-rule-settings'', f_title = Some ''Bulk A'',
       f_status = Some ''inactive'', f_tiers = Some tiers_new_first_text,
       f_products = Some products_12_text\<rparr>"

definition validated_unchanged_23 :: validated where
  "validated_unchanged_23 =
     \<lparr>v_title = ''Bulk A'', v_status = ''active'', v_productIds = [product_2, product_3],
      v_tiers = [parse_tier (array_items tiers_unchanged_value ! 1),
                 parse_tier (array_items tiers_unchanged_value ! 0)]\<rparr>"

text \<open>
  The stored tiers of the rule \<open>Bulk A\<close>, the constants of the loop when its products
  go from 1 and 2 to 2 and 3, and when they stay 1 and 2, and the tier \<open>d1\<close> renamed.
\<close>

definition bulk_a_tiers :: "jsval list" where
  "bulk_a_tiers = array_items (js_get (array_items example_discounts ! 0) ''tiers'')"

definition ctx_12_to_23 :: update_ctx where
  "ctx_12_to_23 = update_context bulk_a_tiers [product_1, product_2] [product_2, product_3]"

definition ctx_12_to_12 :: update_ctx where
  "ctx_12_to_12 = update_context bulk_a_tiers [product_1, product_2] [product_1, product_2]"

definition renamed_tier :: tier where
  "renamed_tier = parse_tier (array_items tiers_renamed_value ! 0)"

text \<open>Two forms of the index page: a tier for the inactive rule \<open>Bulk B\<close>, and a new rule.\<close>

definition create_for_bulk_b :: create_form where
  "create_for_bulk_b =
     \<lparr>g_action = Some ''add-discount'', g_title = Some '' Bulk B '',
      g_discountTitle = Some ''Nine'', g_minimumQuantity = Some ''9'',
      g_percentOff = Some ''25'', g_selectedProducts = Some products_23_text\<rparr>"

definition create_new_rule :: create_form where
  "create_new_rule =
     \<lparr>g_action = Some ''add-discount'', g_title = Some ''Bulk C'',
      g_discountTitle = Some ''Nine'', g_minimumQuantity = Some ''9'',
      g_percentOff = Some ''25'', g_selectedProducts = Some products_23_text\<rparr>"

definition create_without_percent :: create_form where
  "create_without_percent =
     \<lparr>g_action = Some ''add-discount'', g_title = Some ''Bulk C'',
      g_discountTitle = Some ''Nine'', g_minimumQuantity = Some ''9'',
      g_percentOff = None, g_selectedProducts = Some products_23_text\<rparr>"

text \<open>The answer of an update that succeeded.\<close>

definition updated_of :: "rule_ok outcome option \<Rightarrow> update_result" where
  "updated_of answer =
     (case answer of
        Some (Ok (Updated u)) \<Rightarrow> u
      | _ \<Rightarrow> \<lparr>r_nextHandle = [], r_nextTitle = [], r_nextStatus = [], r_nextProducts = [],
              r_nextTiers = []\<rparr>)"

text \<open>
  A service that stores the example document, accepts every mutation and names every
  created discount \<open>d9\<close>; the same service rejecting one request, or every write of
  projections; and one that rejects the first request made.
\<close>

definition ok_response :: response where
  "ok_response = \<lparr>shop_id = Some ''gid://shopify/Shop/1'', metafield_text = None,
      userErrors = [], node_id = None, nodes = JArr []\<rparr>"

definition example_admin :: admin where
  "example_admin trace req =
     (case req of
        ShopQuery \<Rightarrow> ok_response\<lparr>metafield_text := Some config_text\<rparr>
      | DiscountCreate i \<Rightarrow> ok_response\<lparr>node_id := Some ''d9''\<rparr>
      | _ \<Rightarrow> ok_response)"

definition rejecting :: "request \<Rightarrow> admin" where
  "rejecting bad trace req =
     (if req = bad then (example_admin trace req)\<lparr>userErrors := [''rejected'']\<rparr>
      else example_admin trace req)"


definition first_batch_fails :: admin where
  "first_batch_fails trace req =
     (if trace = [] then ok_response\<lparr>userErrors := [''batch rejected'']\<rparr> else ok_response)"

definition example_26_products :: jsval where
  "example_26_products = JArr (map (\<lambda>n. JStr (product_prefix @ nat_digits n)) [1 ..< 27])"

section \<open>Theorems\<close>

text \<open>The loop of \<open>chunkArray\<close> as a code equation, for evaluation.\<close>

lemma chunk_loop_code [code]:
  "chunk_loop items chunk_size index chunks =
     (if index < length items
      then chunk_loop items chunk_size (index + chunk_size)
             (chunks @ [take chunk_size (drop index items)])
      else Some chunks)"
  by (rule chunk_loop.simps)

subsection \<open>The configuration decoder\<close>

text \<open>
  C8. The decoder fails soft. An absent or empty value, a text that \<open>JSON.parse\<close>
  rejects, a parsed value that is not an object, and an object whose \<open>discounts\<close> is
  missing or not an array all give \<open>{discounts: []}\<close>; an object whose \<open>discounts\<close> is
  an array is returned as parsed. The decoder is a total function whose only throwing
  call, \<open>JSON.parse\<close>, is caught: whatever the input, its result is the empty
  configuration or the parsed object.
\<close>

theorem parseDiscountConfig_fails_soft:
  "(val = None \<or> val = Some [] \<longrightarrow> parseDiscountConfig P val = empty_config) \<and>
   (val = Some s \<and> P s = None \<longrightarrow> parseDiscountConfig P val = empty_config) \<and>
   (val = Some s \<and> P s = Some v \<and> (\<forall>fs. v \<noteq> JObj fs) \<longrightarrow>
      parseDiscountConfig P val = empty_config) \<and>
   (val = Some s \<and> P s = Some (JObj fs) \<and> \<not> is_array (js_get (JObj fs) ''discounts'') \<longrightarrow>
      parseDiscountConfig P val = empty_config) \<and>
   (val = Some s \<and> s \<noteq> [] \<and> P s = Some (JObj fs) \<and>
      is_array (js_get (JObj fs) ''discounts'') \<longrightarrow>
      parseDiscountConfig P val = JObj fs) \<and>
   (parseDiscountConfig P val = empty_config \<or>
      (\<exists>s'. val = Some s' \<and> P s' = Some (parseDiscountConfig P val) \<and>
         is_array (js_get (parseDiscountConfig P val) ''discounts'')))"
proof (intro conjI impI)
  assume "val = None \<or> val = Some []"
  then show "parseDiscountConfig P val = empty_config"
    by (auto simp: parseDiscountConfig_def)
next
  assume "val = Some s \<and> P s = None"
  then show "parseDiscountConfig P val = empty_config"
    by (simp add: parseDiscountConfig_def)
next
  assume "val = Some s \<and> P s = Some v \<and> (\<forall>fs. v \<noteq> JObj fs)"
  then show "parseDiscountConfig P val = empty_config"
    by (cases v) (simp_all add: parseDiscountConfig_def)
next
  assume "val = Some s \<and> P s = Some (JObj fs) \<and> \<not> is_array (js_get (JObj fs) ''discounts'')"
  then show "parseDiscountConfig P val = empty_config"
    by (simp add: parseDiscountConfig_def)
next
  assume "val = Some s \<and> s \<noteq> [] \<and> P s = Some (JObj fs) \<and>
      is_array (js_get (JObj fs) ''discounts'')"
  then show "parseDiscountConfig P val = JObj fs"
    by (simp add: parseDiscountConfig_def)
next
  show "parseDiscountConfig P val = empty_config \<or>
      (\<exists>s'. val = Some s' \<and> P s' = Some (parseDiscountConfig P val) \<and>
         is_array (js_get (parseDiscountConfig P val) ''discounts''))"
    by (auto simp: parseDiscountConfig_def split: option.splits)
qed

theorem parseDiscountConfig_fails_soft_witness:
  "parseDiscountConfig example_parse None = empty_config \<and>
   parseDiscountConfig example_parse (Some []) = empty_config \<and>
   example_parse ''{not json'' = None \<and>
   parseDiscountConfig example_parse (Some ''{not json'') = empty_config \<and>
   example_parse ''[1]'' = Some (JArr [JNum 1]) \<and>
   parseDiscountConfig example_parse (Some ''[1]'') = empty_config \<and>
   example_parse ''{\"discounts\":1}'' = Some (JObj [(''discounts'', JNum 1)]) \<and>
   parseDiscountConfig example_parse (Some ''{\"discounts\":1}'') = empty_config \<and>
   example_parse ''{\"discounts\":[]}'' = Some (JObj [(''discounts'', JArr [])]) \<and>
   parseDiscountConfig example_parse (Some ''{\"discounts\":[]}'')
     = JObj [(''discounts'', JArr [])]"
proof -
  have p1: "example_parse ''{not json'' = None"
    and p2: "example_parse ''[1]'' = Some (JArr [JNum 1])"
    and p3: "example_parse ''{\"discounts\":1}'' = Some (JObj [(''discounts'', JNum 1)])"
    and p4: "example_parse ''{\"discounts\":[]}'' = Some (JObj [(''discounts'', JArr [])])"
    by code_simp+
  show ?thesis
    using p1 p2 p3 p4
      parseDiscountConfig_fails_soft [of None example_parse]
      parseDiscountConfig_fails_soft [of "Some []" example_parse]
      parseDiscountConfig_fails_soft [of "Some ''{not json''" example_parse "''{not json''"]
      parseDiscountConfig_fails_soft [of "Some ''[1]''" example_parse "''[1]''" "JArr [JNum 1]"]
      parseDiscountConfig_fails_soft [of "Some ''{\"discounts\":1}''" example_parse
        "''{\"discounts\":1}''" _ "[(''discounts'', JNum 1)]"]
      parseDiscountConfig_fails_soft [of "Some ''{\"discounts\":[]}''" example_parse
        "''{\"discounts\":[]}''" _ "[(''discounts'', JArr [])]"]
    by simp
qed

subsection \<open>The projection\<close>


lemma projection_inv_skip:
  assumes "projection_inv m fed" "map_of m (pt_min_quantity nt) = Some existing"
    "\<not> pt_percent_off nt > pt_percent_off existing"
  shows "projection_inv m (fed @ [nt])"
proof -
  from assms(1,2) have "pt_min_quantity existing = pt_min_quantity nt" "existing \<in> set fed"
    unfolding projection_inv_def by blast+
  with assms show ?thesis
    unfolding projection_inv_def
    by (auto simp del: map_of_eq_Some_iff simp: not_less)
qed

lemma projection_inv_update:
  assumes "projection_inv m fed"
    "\<forall>existing. map_of m (pt_min_quantity nt) = Some existing \<longrightarrow>
        pt_percent_off nt > pt_percent_off existing"
  shows "projection_inv (AList.update (pt_min_quantity nt) nt m) (fed @ [nt])"
proof -
  have 1: "distinct (map fst (AList.update (pt_min_quantity nt) nt m))"
    using assms(1) by (simp add: projection_inv_def distinct_update)
  have 2: "pt_min_quantity v = k \<and> v \<in> set (fed @ [nt])"
    if "map_of (AList.update (pt_min_quantity nt) nt m) k = Some v" for k v
    using that assms(1) unfolding projection_inv_def update_conv'
    by (cases "k = pt_min_quantity nt") (auto simp del: map_of_eq_Some_iff)
  have 3: "\<exists>v. map_of (AList.update (pt_min_quantity nt) nt m) (pt_min_quantity t) = Some v \<and>
           pt_percent_off t \<le> pt_percent_off v" if "t \<in> set (fed @ [nt])" for t
  proof (cases "pt_min_quantity t = pt_min_quantity nt")
    case False
    with that assms(1) show ?thesis
      unfolding projection_inv_def update_conv' by (auto simp del: map_of_eq_Some_iff)
  next
    case True
    show ?thesis
    proof (cases "t = nt")
      case True
      then show ?thesis by (simp add: update_conv')
    next
      case False
      with that have "t \<in> set fed" by simp
      with assms(1) obtain v where v: "map_of m (pt_min_quantity t) = Some v"
        "pt_percent_off t \<le> pt_percent_off v"
        unfolding projection_inv_def by blast
      with assms(2) True have "pt_percent_off v < pt_percent_off nt" by simp
      with v True show ?thesis by (simp add: update_conv')
    qed
  qed
  from 1 2 3 show ?thesis unfolding projection_inv_def by blast
qed

lemma tier_step_inv:
  assumes "projection_inv m fed"
  shows "projection_inv (tier_step m tier) (fed @ List.map_filter normalizeTierForProjection [tier])"
proof (cases "normalizeTierForProjection tier")
  case None
  with assms show ?thesis by (simp add: tier_step_def List.map_filter_def)
next
  case (Some nt)
  then have mf: "List.map_filter normalizeTierForProjection [tier] = [nt]"
    by (simp add: List.map_filter_def)
  show ?thesis
  proof (cases "map_of m (pt_min_quantity nt)")
    case None
    with Some mf projection_inv_update[OF assms, of nt] show ?thesis
      by (simp add: tier_step_def)
  next
    case (Some existing)
    with \<open>normalizeTierForProjection tier = Some nt\<close> mf
      projection_inv_update[OF assms, of nt] projection_inv_skip[OF assms, of nt existing]
    show ?thesis
      by (simp add: tier_step_def)
  qed
qed

lemma map_filter_append:
  "List.map_filter f (xs @ ys) = List.map_filter f xs @ List.map_filter f ys"
  by (simp add: List.map_filter_def)

lemma foldl_tier_step_inv:
  "projection_inv m fed \<Longrightarrow>
   projection_inv (foldl tier_step m tiers) (fed @ List.map_filter normalizeTierForProjection tiers)"
proof (induction tiers arbitrary: m fed)
  case Nil
  then show ?case by (simp add: List.map_filter_def)
next
  case (Cons tier tiers)
  from Cons.IH[OF tier_step_inv[OF Cons.prems, of tier]]
  show ?case using map_filter_append[of normalizeTierForProjection "[tier]" tiers] by simp
qed

lemma getRuleProductIds_None: "getRuleProductIds rule = None \<longleftrightarrow> rule = JNull"
  by (simp add: getRuleProductIds_def Let_def)

lemma rule_loop_inv:
  "JNull \<notin> set rules \<Longrightarrow> projection_inv m fed \<Longrightarrow>
   \<exists>m'. rule_loop pid m rules = Some m' \<and> projection_inv m' (fed @ applicable_tiers rules pid)"
proof (induction rules arbitrary: m fed)
  case Nil
  then show ?case by (simp add: applicable_tiers_def)
next
  case (Cons rule rules)
  from Cons.prems(1) have nn: "rule \<noteq> JNull" "JNull \<notin> set rules" by auto
  then obtain ids where ids: "getRuleProductIds rule = Some ids"
    using getRuleProductIds_None[of rule] by (cases "getRuleProductIds rule") auto
  show ?case
  proof (cases "pid \<in> set ids")
    case False
    with ids Cons.IH[OF nn(2) Cons.prems(2)] show ?thesis
      by (simp add: applicable_tiers_def)
  next
    case True
    from Cons.IH[OF nn(2) foldl_tier_step_inv[OF Cons.prems(2), of "array_items (js_get rule ''tiers'')"]]
    show ?thesis using ids True by (simp add: applicable_tiers_def)
  qed
qed

lemma projection_inv_empty: "projection_inv [] []"
  by (simp add: projection_inv_def)






subsection \<open>Writing the projections in batches\<close>

lemma buildProductTierProjection_returns:
  assumes "JNull \<notin> set (array_items discounts)"
  shows "\<exists>p. buildProductTierProjection discounts productId = Some p"
  using rule_loop_inv[OF assms projection_inv_empty, of productId]
  by (auto simp: buildProductTierProjection_def)

lemma chunk_loop_returns:
  assumes "0 < n"
  shows "\<exists>cs. chunk_loop items n index chunks = Some (chunks @ cs) \<and>
           concat cs = drop index items \<and> (\<forall>c \<in> set cs. 0 < length c \<and> length c \<le> n)"
proof (induction "length items - index" arbitrary: index chunks rule: less_induct)
  case less
  show ?case
  proof (cases "index < length items")
    case False
    have "chunk_loop items n index chunks = Some chunks"
      by (subst chunk_loop.simps) (simp only: False if_False)
    with False show ?thesis by simp
  next
    case True
    with assms have "length items - (index + n) < length items - index" by arith
    from less[OF this, of "chunks @ [take n (drop index items)]"]
    obtain cs where cs:
      "chunk_loop items n (index + n) (chunks @ [take n (drop index items)])
         = Some ((chunks @ [take n (drop index items)]) @ cs)"
      "concat cs = drop (index + n) items"
      "\<forall>c \<in> set cs. 0 < length c \<and> length c \<le> n" by blast
    let ?cs = "take n (drop index items) # cs"
    have "chunk_loop items n index chunks =
       chunk_loop items n (index + n) (chunks @ [take n (drop index items)])"
      by (subst chunk_loop.simps) (simp only: True if_True)
    with cs(1) have 1: "chunk_loop items n index chunks = Some (chunks @ ?cs)"
      by simp
    have 2: "concat ?cs = drop index items"
    proof -
      have "concat ?cs = take n (drop index items) @ drop (index + n) items"
        using cs(2) by simp
      also have "drop (index + n) items = drop n (drop index items)"
        by (simp add: add.commute)
      finally show ?thesis by (simp only: append_take_drop_id)
    qed
    have 3: "\<forall>c \<in> set ?cs. 0 < length c \<and> length c \<le> n"
      using cs(3) True assms by auto
    from 1 2 3 show ?thesis by blast
  qed
qed

lemma chunkArray_returns:
  "\<exists>chunks. chunkArray items MAX_METAFIELDS_SET = Some chunks \<and> concat chunks = items \<and>
     (\<forall>c \<in> set chunks. 0 < length c \<and> length c \<le> 25)"
  using chunk_loop_returns[of 25 items 0 "[]"]
  by (simp add: chunkArray_def MAX_METAFIELDS_SET_def)

lemma set_chunks_trace:
  "set_chunks admin chunks errors trace =
     (errors @ concat (map (\<lambda>i. userErrors (admin (trace @ map MetafieldsSet (take i chunks))
                                      (MetafieldsSet (chunks ! i)))) [0 ..< length chunks]),
      trace @ map MetafieldsSet chunks)"
proof (induction chunks arbitrary: errors trace)
  case Nil
  then show ?case by simp
next
  case (Cons c chunks)
  have "[0 ..< length (c # chunks)] = 0 # map Suc [0 ..< length chunks]"
    by (simp add: upt_conv_Cons map_Suc_upt del: upt_Suc)
  then show ?case
    by (simp add: Cons.IH graphql_def comp_def del: upt_Suc)
qed

lemma build_metafields_returns:
  assumes "JNull \<notin> set (array_items discounts)"
  shows "\<exists>ms. build_metafields discounts productIds acc = Some (acc @ ms) \<and>
     list_all2 (\<lambda>productId m. \<exists>p. buildProductTierProjection discounts productId = Some p \<and>
                    m = projection_metafield productId p) productIds ms"
proof (induction productIds arbitrary: acc)
  case Nil
  then show ?case by simp
next
  case (Cons productId productIds)
  from buildProductTierProjection_returns[OF assms, of productId]
  obtain p where p: "buildProductTierProjection discounts productId = Some p" by blast
  from Cons.IH[of "acc @ [projection_metafield productId p]"]
  obtain ms where ms: "build_metafields discounts productIds (acc @ [projection_metafield productId p])
       = Some ((acc @ [projection_metafield productId p]) @ ms)"
     "list_all2 (\<lambda>productId m. \<exists>p. buildProductTierProjection discounts productId = Some p \<and>
                    m = projection_metafield productId p) productIds ms" by blast
  show ?case
    by (rule exI[of _ "projection_metafield productId p # ms"]) (use p ms in simp)
qed

text \<open>
  C9. For every set of affected products (and rules none of which is \<open>null\<close>), the
  metafields to write, one per normalized product identifier, are cut into chunks of at
  most 25 entries; the requests made are exactly one \<open>metafieldsSet\<close> per chunk, in
  order, whatever the service answers; the answer to chunk \<open>i\<close> is given after the
  chunks before it have been sent; and the errors returned are the user errors of all
  the chunks, in order.
\<close>

theorem recompute_batches:
  assumes "JNull \<notin> set (array_items discounts)"
  shows "\<exists>metafieldsToSet chunks.
     list_all2 (\<lambda>productId m. \<exists>p. buildProductTierProjection discounts productId = Some p \<and>
                    m = projection_metafield productId p)
       (normalizeProductIds affectedProductIds) metafieldsToSet \<and>
     concat chunks = metafieldsToSet \<and>
     (\<forall>c \<in> set chunks. 0 < length c \<and> length c \<le> 25) \<and>
     recomputeProductDiscountProjectionMetafields admin discounts affectedProductIds trace =
       (Some (concat (map (\<lambda>i. userErrors (admin (trace @ map MetafieldsSet (take i chunks))
                                     (MetafieldsSet (chunks ! i)))) [0 ..< length chunks])),
        trace @ map MetafieldsSet chunks)"
proof -
  let ?ids = "normalizeProductIds affectedProductIds"
  from build_metafields_returns[OF assms, of ?ids "[]"]
  obtain ms where ms: "build_metafields discounts ?ids [] = Some ms"
     "list_all2 (\<lambda>productId m. \<exists>p. buildProductTierProjection discounts productId = Some p \<and>
                    m = projection_metafield productId p) ?ids ms" by auto
  from chunkArray_returns[of ms]
  obtain chunks where ch: "chunkArray ms MAX_METAFIELDS_SET = Some chunks" "concat chunks = ms"
     "\<forall>c \<in> set chunks. 0 < length c \<and> length c \<le> 25" by blast
  have empty: "chunks = []" if "?ids = []"
  proof -
    from that ms(2) have "ms = []" by simp
    with ch(2,3) show ?thesis by (cases chunks) auto
  qed
  have "recomputeProductDiscountProjectionMetafields admin discounts affectedProductIds trace =
       (Some (concat (map (\<lambda>i. userErrors (admin (trace @ map MetafieldsSet (take i chunks))
                                     (MetafieldsSet (chunks ! i)))) [0 ..< length chunks])),
        trace @ map MetafieldsSet chunks)"
  proof (cases "?ids = []")
    case True
    with empty show ?thesis
      by (simp add: recomputeProductDiscountProjectionMetafields_def)
  next
    case False
    with ms(1) ch(1) show ?thesis
      by (simp add: recomputeProductDiscountProjectionMetafields_def Let_def
            set_chunks_trace[of admin chunks "[]" trace])
  qed
  with ms(2) ch(2,3) show ?thesis by blast
qed

theorem recompute_batches_witness:
  "JNull \<notin> set (array_items example_discounts) \<and>
   map_prod id (map (\<lambda>r. case r of MetafieldsSet c \<Rightarrow> length c | _ \<Rightarrow> 0))
     (recomputeProductDiscountProjectionMetafields first_batch_fails example_discounts
        example_26_products []) =
     (Some [''batch rejected''], [25, 1]) \<and>
   (\<exists>metafieldsToSet chunks.
     list_all2 (\<lambda>productId m. \<exists>p. buildProductTierProjection example_discounts productId = Some p \<and>
                    m = projection_metafield productId p)
       (normalizeProductIds example_26_products) metafieldsToSet \<and>
     concat chunks = metafieldsToSet \<and>
     (\<forall>c \<in> set chunks. 0 < length c \<and> length c \<le> 25) \<and>
     recomputeProductDiscountProjectionMetafields first_batch_fails example_discounts
         example_26_products [] =
       (Some (concat (map (\<lambda>i. userErrors (first_batch_fails ([] @ map MetafieldsSet (take i chunks))
                                     (MetafieldsSet (chunks ! i)))) [0 ..< length chunks])),
        [] @ map MetafieldsSet chunks))"
proof -
  have h: "JNull \<notin> set (array_items example_discounts)"
    by (simp add: example_discounts_def)
  have e: "map_prod id (map (\<lambda>r. case r of MetafieldsSet c \<Rightarrow> length c | _ \<Rightarrow> 0))
     (recomputeProductDiscountProjectionMetafields first_batch_fails example_discounts
        example_26_products []) =
     (Some [''batch rejected''], [25, 1])"
    by code_simp
  from h e recompute_batches [OF h, of example_26_products first_batch_fails "[]"]
  show ?thesis by blast
qed

subsection \<open>The update validates first\<close>

lemma find_index_None: "find_index P xs = None \<longleftrightarrow> (\<forall>x \<in> set xs. \<not> P x)"
  by (induction xs) auto








subsection \<open>The loop over the tiers\<close>

lemma reconcile_tiers_never_NoProducts:
  "c_productIds ctx \<noteq> [] \<Longrightarrow>
   fst (reconcile_tiers admin ctx tiers acc trace) \<noteq> NoProducts"
proof (induction tiers arbitrary: acc trace)
  case Nil
  then show ?case by simp
next
  case (Cons tier tiers)
  then show ?case
    by (simp add: Let_def split: prod.splits option.splits)
qed

lemma update_validate_products:
  "update_validate P form = Inr v \<Longrightarrow> v_productIds v = form_product_ids P form \<and> v_productIds v \<noteq> []"
proof -
  assume a: "update_validate P form = Inr v"
  then have "form_product_ids P form \<noteq> []"
    by (auto simp: update_validate_def Let_def split: if_splits option.splits)
  moreover from a have "v_productIds v = form_product_ids P form"
    by (auto simp: update_validate_def Let_def split: if_splits option.splits)
  ultimately show ?thesis by simp
qed

text \<open>
  C10. The return \<open>This rule must have at least one product\<close> inside the loop over the
  tiers is unreachable. A form that passes the validation has a non-empty list of
  product identifiers; that list is the one the loop tests, unchanged; and with a
  non-empty list the loop never leaves through that return, whatever the stored rule,
  the tiers and the service.
\<close>

theorem no_products_return_unreachable:
  assumes "update_validate P form = Inr v"
  shows "v_productIds v \<noteq> [] \<and>
     c_productIds (update_context previousTiers previousProductIds (v_productIds v)) = v_productIds v \<and>
     fst (reconcile_tiers admin
            (update_context previousTiers previousProductIds (v_productIds v)) tiers acc trace)
       \<noteq> NoProducts"
proof -
  from update_validate_products[OF assms] have ne: "v_productIds v \<noteq> []" by blast
  have c: "c_productIds (update_context previousTiers previousProductIds (v_productIds v))
     = v_productIds v"
    by (simp add: update_context_def Let_def)
  from reconcile_tiers_never_NoProducts[of "update_context previousTiers previousProductIds (v_productIds v)"]
    ne c show ?thesis by simp
qed

theorem no_products_return_unreachable_witness:
  "update_validate example_parse form_unchanged_23 = Inr validated_unchanged_23 \<and>
   v_productIds validated_unchanged_23 \<noteq> [] \<and>
   fst (reconcile_tiers example_admin
          (update_context bulk_a_tiers [product_1, product_2]
             (v_productIds validated_unchanged_23))
          (v_tiers validated_unchanged_23) [] [ShopQuery]) \<noteq> NoProducts"
proof -
  have h: "update_validate example_parse form_unchanged_23 = Inr validated_unchanged_23"
    by code_simp
  from h no_products_return_unreachable [OF h, of bulk_a_tiers "[product_1, product_2]"
      example_admin "v_tiers validated_unchanged_23" "[]" "[ShopQuery]"]
  show ?thesis by simp
qed

lemma reconcile_tiers_extends:
  "\<exists>ws. snd (reconcile_tiers admin ctx tiers acc trace) = trace @ ws"
proof (induction tiers arbitrary: acc trace)
  case Nil
  then show ?case by simp
next
  case (Cons tier tiers)
  have a: "\<exists>ws. snd (reconcile_tiers admin ctx tiers acc' (trace @ [r])) = trace @ ws" for acc' r
    using Cons.IH[of acc' "trace @ [r]"] by auto
  show ?case
    using Cons.IH[of "acc @ [tier]" trace] a
    by (simp add: Let_def graphql_def split: prod.splits option.splits)
qed

lemma list_ex_zip_neq:
  "length xs = length ys \<Longrightarrow> list_ex (\<lambda>(a, b). a \<noteq> b) (zip xs ys) \<longleftrightarrow> xs \<noteq> ys"
  by (induction xs ys rule: list_induct2) auto

lemma sort_eq_iff_set_eq:
  fixes xs ys :: "'a::linorder list"
  assumes "distinct xs" "distinct ys"
  shows "sort xs = sort ys \<longleftrightarrow> set xs = set ys"
proof
  assume "sort xs = sort ys"
  then have "set (sort xs) = set (sort ys)" by simp
  then show "set xs = set ys" by simp
next
  assume "set xs = set ys"
  with assms show "sort xs = sort ys"
    by (intro sorted_distinct_set_unique) simp_all
qed

lemma productsChanged_iff:
  assumes "distinct previousProductIds" "distinct productIds"
  shows "c_productsChanged (update_context previousTiers previousProductIds productIds)
     \<longleftrightarrow> set previousProductIds \<noteq> set productIds"
proof (cases "length previousProductIds = length productIds")
  case True
  then have "length (sort previousProductIds) = length (sort productIds)" by simp
  from list_ex_zip_neq[OF this] True sort_eq_iff_set_eq[OF assms]
  show ?thesis by (simp add: update_context_def Let_def)
next
  case False
  with assms have "set previousProductIds \<noteq> set productIds"
    by (metis distinct_card)
  with False show ?thesis by (simp add: update_context_def Let_def)
qed

lemma update_request_first:
  assumes "shouldUpdateExistingDiscount ctx tier" "c_productIds ctx \<noteq> []"
  shows "\<exists>d rest. tier_discount_id tier = Some d \<and>
     snd (reconcile_tiers admin ctx (tier # tiers) acc trace) =
       trace @ DiscountUpdate d (discountInputBase ctx tier) # rest"
proof -
  from assms(1) obtain d where d: "tier_discount_id tier = Some d"
    by (auto simp: shouldUpdateExistingDiscount_def)
  then have s: "js_String (js_get (JObj (t_spread tier)) ''discount_id'') = d"
    unfolding tier_discount_id_def
    by (cases "js_get (JObj (t_spread tier)) ''discount_id''") (auto split: if_splits)
  let ?r = "DiscountUpdate d (discountInputBase ctx tier)"
  from reconcile_tiers_extends[of admin ctx tiers "acc @ [tier]" "trace @ [?r]"]
  obtain ws where "snd (reconcile_tiers admin ctx tiers (acc @ [tier]) (trace @ [?r]))
     = trace @ ?r # ws" by auto
  with assms d s show ?thesis
    by (auto simp: Let_def graphql_def shouldCreateDiscount_def split: prod.splits)
qed

text \<open>
  C1, as amended. For every tier that has a discount identifier and needs an update,
  the next request of the loop is the update of that discount, with this payload: when
  the product set of the rule changed, the products are incremental, \<open>productsToAdd\<close>
  the identifiers wanted and not stored before, \<open>productsToRemove\<close> those stored before
  and not wanted, each key left out when its list is empty, whether or not the fields
  of the tier changed; when the product set did not change, the fields of the tier
  changed and the products are the full \<open>productsToAdd\<close> of the wanted identifiers.
\<close>

theorem update_payload_by_products_changed:
  assumes "ctx = update_context previousTiers previousProductIds productIds"
    and "distinct previousProductIds" and "distinct productIds" and "productIds \<noteq> []"
    and "shouldUpdateExistingDiscount ctx tier"
  shows "(\<exists>d rest. tier_discount_id tier = Some d \<and>
            snd (reconcile_tiers admin ctx (tier # tiers) acc trace) =
              trace @ DiscountUpdate d (discountInputBase ctx tier) # rest) \<and>
         (set previousProductIds \<noteq> set productIds \<longrightarrow>
            di_products (discountInputBase ctx tier) =
              \<lparr>productsToAdd =
                 (if filter (\<lambda>id. id \<notin> set previousProductIds) productIds = [] then None
                  else Some (filter (\<lambda>id. id \<notin> set previousProductIds) productIds)),
               productsToRemove =
                 (if filter (\<lambda>id. id \<notin> set productIds) previousProductIds = [] then None
                  else Some (filter (\<lambda>id. id \<notin> set productIds) previousProductIds))\<rparr>) \<and>
         (set previousProductIds = set productIds \<longrightarrow>
            tierChanged ctx tier \<and>
            di_products (discountInputBase ctx tier) =
              \<lparr>productsToAdd = Some productIds, productsToRemove = None\<rparr>)"
proof -
  have c: "c_productsChanged ctx \<longleftrightarrow> set previousProductIds \<noteq> set productIds"
    using productsChanged_iff[OF assms(2,3)] assms(1) by simp
  have f: "c_productIds ctx = productIds"
    "c_addedProductIds ctx = filter (\<lambda>id. id \<notin> set previousProductIds) productIds"
    "c_removedProductIds ctx = filter (\<lambda>id. id \<notin> set productIds) previousProductIds"
    using assms(1) by (simp_all add: update_context_def Let_def)
  have 1: "\<exists>d rest. tier_discount_id tier = Some d \<and>
            snd (reconcile_tiers admin ctx (tier # tiers) acc trace) =
              trace @ DiscountUpdate d (discountInputBase ctx tier) # rest"
    using update_request_first[OF assms(5)] f(1) assms(4) by simp
  have 2: "di_products (discountInputBase ctx tier) =
              \<lparr>productsToAdd =
                 (if filter (\<lambda>id. id \<notin> set previousProductIds) productIds = [] then None
                  else Some (filter (\<lambda>id. id \<notin> set previousProductIds) productIds)),
               productsToRemove =
                 (if filter (\<lambda>id. id \<notin> set productIds) previousProductIds = [] then None
                  else Some (filter (\<lambda>id. id \<notin> set productIds) previousProductIds))\<rparr>"
    if "set previousProductIds \<noteq> set productIds"
    using that c assms(5) f by (simp add: discountInputBase_def productsInput_def)
  have 3: "tierChanged ctx tier \<and> di_products (discountInputBase ctx tier) =
              \<lparr>productsToAdd = Some productIds, productsToRemove = None\<rparr>"
    if "set previousProductIds = set productIds"
    using that c assms(5) f
    by (simp add: discountInputBase_def productsInput_def shouldUpdateExistingDiscount_def)
  from 1 2 3 show ?thesis by blast
qed

theorem update_payload_by_products_changed_witness:
  "ctx_12_to_23 = update_context bulk_a_tiers [product_1, product_2] [product_2, product_3] \<and>
   distinct [product_1, product_2] \<and> distinct [product_2, product_3] \<and>
   [product_2, product_3] \<noteq> [] \<and>
   shouldUpdateExistingDiscount ctx_12_to_23 renamed_tier \<and>
   set [product_1, product_2] \<noteq> set [product_2, product_3] \<and>
   di_products (discountInputBase ctx_12_to_23 renamed_tier) =
     \<lparr>productsToAdd = Some [product_3], productsToRemove = Some [product_1]\<rparr> \<and>
   ctx_12_to_12 = update_context bulk_a_tiers [product_1, product_2] [product_1, product_2] \<and>
   shouldUpdateExistingDiscount ctx_12_to_12 renamed_tier \<and>
   tierChanged ctx_12_to_12 renamed_tier \<and>
   di_products (discountInputBase ctx_12_to_12 renamed_tier) =
     \<lparr>productsToAdd = Some [product_1, product_2], productsToRemove = None\<rparr>"
proof -
  have d: "distinct [product_1, product_2]" "distinct [product_2, product_3]"
    "set [product_1, product_2] \<noteq> set [product_2, product_3]"
    by code_simp+
  have n: "[product_2, product_3] \<noteq> []" "[product_1, product_2] \<noteq> []"
    by simp_all
  have a: "filter (\<lambda>id. id \<notin> set [product_1, product_2]) [product_2, product_3] = [product_3]"
    and r: "filter (\<lambda>id. id \<notin> set [product_2, product_3]) [product_1, product_2] = [product_1]"
    by code_simp+
  have s1: "shouldUpdateExistingDiscount ctx_12_to_23 renamed_tier"
    and s2: "shouldUpdateExistingDiscount ctx_12_to_12 renamed_tier"
    by code_simp+
  note t1 = update_payload_by_products_changed [OF ctx_12_to_23_def d(1) d(2) n(1) s1,
      of example_admin "[]" "[]" "[]"]
  note t2 = update_payload_by_products_changed [OF ctx_12_to_12_def d(1) d(1) n(2) s2,
      of example_admin "[]" "[]" "[]"]
  from t1 d(3) have p1: "di_products (discountInputBase ctx_12_to_23 renamed_tier) =
     \<lparr>productsToAdd = Some [product_3], productsToRemove = Some [product_1]\<rparr>"
    by (simp only: a r) simp
  from t2 have p2: "tierChanged ctx_12_to_12 renamed_tier \<and>
     di_products (discountInputBase ctx_12_to_12 renamed_tier) =
     \<lparr>productsToAdd = Some [product_1, product_2], productsToRemove = None\<rparr>"
    by blast
  from d n s1 s2 p1 p2 ctx_12_to_23_def ctx_12_to_12_def show ?thesis
    by blast
qed

text \<open>
  The claim as it was stated fails where the fields of a tier and the products both
  change: the tier \<open>d1\<close> is renamed while the products go from 1 and 2 to 2 and 3, and
  the update of \<open>d1\<close> carries the incremental products, not the full list.
\<close>

theorem update_payload_counterexample:
  "tierChanged ctx_12_to_23 renamed_tier \<and>
   shouldUpdateExistingDiscount ctx_12_to_23 renamed_tier \<and>
   di_products (discountInputBase ctx_12_to_23 renamed_tier) \<noteq>
     \<lparr>productsToAdd = Some [product_2, product_3], productsToRemove = None\<rparr> \<and>
   snd (update_rule example_parse example_admin ''bulk-a'' form_renamed_23 []) ! 2 =
     DiscountUpdate ''d1''
       \<lparr>di_title = ''Five plus'', di_quantity = ''5'', di_percentage = Some (1 / 10),
        di_products = \<lparr>productsToAdd = Some [product_3],
                       productsToRemove = Some [product_1]\<rparr>\<rparr>"
  by code_simp

subsection \<open>Deleting a rule\<close>

lemma delete_loop_all_accepted:
  assumes "\<forall>i < length ids.
     userErrors (admin (tr @ map DiscountDelete (take i ids)) (DiscountDelete (ids ! i))) = []"
  shows "delete_loop admin ids tr = ([], tr @ map DiscountDelete ids)"
  using assms
proof (induction ids arbitrary: tr)
  case Nil
  then show ?case by simp
next
  case (Cons d ids)
  from Cons.prems have 0: "userErrors (admin tr (DiscountDelete d)) = []" by auto
  have "\<forall>i < length ids.
     userErrors (admin ((tr @ [DiscountDelete d]) @ map DiscountDelete (take i ids))
                  (DiscountDelete (ids ! i))) = []"
  proof (intro allI impI)
    fix i assume "i < length ids"
    with Cons.prems[rule_format, of "Suc i"] show
      "userErrors (admin ((tr @ [DiscountDelete d]) @ map DiscountDelete (take i ids))
                  (DiscountDelete (ids ! i))) = []" by simp
  qed
  from Cons.IH[OF this] 0 show ?case by (simp add: graphql_def)
qed

lemma delete_loop_first_rejected:
  assumes "k < length ids"
    "userErrors (admin (tr @ map DiscountDelete (take k ids)) (DiscountDelete (ids ! k))) \<noteq> []"
    "\<forall>i < k.
     userErrors (admin (tr @ map DiscountDelete (take i ids)) (DiscountDelete (ids ! i))) = []"
  shows "delete_loop admin ids tr =
     (userErrors (admin (tr @ map DiscountDelete (take k ids)) (DiscountDelete (ids ! k))),
      tr @ map DiscountDelete (take (Suc k) ids))"
  using assms
proof (induction ids arbitrary: tr k)
  case Nil
  then show ?case by simp
next
  case (Cons d ids)
  show ?case
  proof (cases k)
    case 0
    with Cons.prems show ?thesis by (simp add: graphql_def)
  next
    case (Suc j)
    from Cons.prems(3) Suc have 0: "userErrors (admin tr (DiscountDelete d)) = []" by auto
    have a: "j < length ids" using Cons.prems(1) Suc by simp
    have b: "userErrors (admin ((tr @ [DiscountDelete d]) @ map DiscountDelete (take j ids))
                  (DiscountDelete (ids ! j))) \<noteq> []"
      using Cons.prems(2) Suc by simp
    have c: "\<forall>i < j.
       userErrors (admin ((tr @ [DiscountDelete d]) @ map DiscountDelete (take i ids))
                  (DiscountDelete (ids ! i))) = []"
    proof (intro allI impI)
      fix i assume "i < j"
      with Cons.prems(3)[rule_format, of "Suc i"] Suc show
        "userErrors (admin ((tr @ [DiscountDelete d]) @ map DiscountDelete (take i ids))
                  (DiscountDelete (ids ! i))) = []" by simp
    qed
    from Cons.IH[OF a b c] 0 Suc show ?thesis by (simp add: graphql_def)
  qed
qed

lemma first_rejected_exists:
  fixes n :: nat
  assumes "\<not> (\<forall>i < n. Q i)"
  shows "\<exists>k < n. \<not> Q k \<and> (\<forall>i < k. Q i)"
proof -
  from assms have "\<exists>i. i < n \<and> \<not> Q i" by auto
  then obtain k where k: "k < n \<and> \<not> Q k" "\<forall>m < k. \<not> (m < n \<and> \<not> Q m)"
    using exists_least_iff[of "\<lambda>i. i < n \<and> \<not> Q i"] by auto
  have "Q i" if "i < k" for i
    using that k by (meson less_trans)
  with k(1) show ?thesis by auto
qed

lemma without_index_take_drop:
  "without_index i xs = take i xs @ drop (Suc i) xs"
proof -
  have "map snd (filter (\<lambda>(index, _). index \<noteq> i + n) (enumerate n xs)) = take i xs @ drop (Suc i) xs"
    for n
  proof (induction xs arbitrary: i n)
    case Nil
    then show ?case by simp
  next
    case (Cons x xs)
    show ?case
    proof (cases i)
      case 0
      have "filter (\<lambda>(index, _). index \<noteq> n) (enumerate (Suc n) xs) = enumerate (Suc n) xs"
        by (rule filter_True) (auto simp: in_set_enumerate_eq)
      with 0 show ?thesis by simp
    next
      case (Suc j)
      with Cons.IH[of j "Suc n"] show ?thesis by simp
    qed
  qed
  from this[of 0] show ?thesis by (simp add: without_index_def)
qed


lemma delete_loop_accepted:
  "\<forall>i < length ids. delete_accepted admin tr ids i \<Longrightarrow>
   delete_loop admin ids tr = ([], tr @ map DiscountDelete ids)"
  using delete_loop_all_accepted[of ids admin tr] by (simp add: delete_accepted_def)

lemma delete_loop_rejected:
  "k < length ids \<Longrightarrow> \<not> delete_accepted admin tr ids k \<Longrightarrow>
   \<forall>i < k. delete_accepted admin tr ids i \<Longrightarrow>
   delete_loop admin ids tr =
     (userErrors (admin (tr @ map DiscountDelete (take k ids)) (DiscountDelete (ids ! k))),
      tr @ map DiscountDelete (take (Suc k) ids))"
  using delete_loop_first_rejected[of k ids admin tr] by (simp add: delete_accepted_def)

lemma findRuleIndex_Found:
  "findRuleIndex ds h n = Found i \<Longrightarrow> n \<le> i \<and> i - n < length ds"
proof (induction ds arbitrary: n)
  case Nil
  then show ?case by simp
next
  case (Cons d ds)
  then show ?case
    by (auto split: option.splits if_splits) fastforce+
qed

lemma getRuleProductIds_js_or:
  "\<exists>ids. getRuleProductIds (js_or r (JObj [])) = Some ids"
proof -
  have "js_or r (JObj []) \<noteq> JNull" by (cases r) (auto simp: js_or_def)
  then show ?thesis by (simp add: getRuleProductIds_def Let_def)
qed

lemma delete_rule_rejected:
  assumes "discounts = config_discounts (parseDiscountConfig P (metafield_text (admin trace ShopQuery)))"
    and "findRuleIndex discounts tableHandle 0 = Found ruleIndex"
    and "rule = js_or (discounts ! ruleIndex) (JObj [])"
    and "ids = stored_discount_ids (array_items (js_get rule ''tiers''))"
    and "trace1 = trace @ [ShopQuery]"
    and "k < length ids" "\<not> delete_accepted admin trace1 ids k"
      "\<forall>i < k. delete_accepted admin trace1 ids i"
  shows "delete_rule P admin tableHandle trace =
     (Some (Errors (userErrors (admin (trace1 @ map DiscountDelete (take k ids))
                                  (DiscountDelete (ids ! k))))),
      trace1 @ map DiscountDelete (take (Suc k) ids))"
proof -
  obtain affected where af: "getRuleProductIds rule = Some affected"
    using getRuleProductIds_js_or assms(3) by blast
  note dl = delete_loop_rejected[OF assms(6,7,8)]
  from assms(7) have ne: "userErrors (admin (trace1 @ map DiscountDelete (take k ids))
                                  (DiscountDelete (ids ! k))) \<noteq> []"
    by (simp add: delete_accepted_def)
  show ?thesis
    using assms(1-5) af dl ne
    by (simp add: delete_rule_def graphql_def Let_def)
qed


lemma delete_rule_accepted:
  assumes "discounts = config_discounts (parseDiscountConfig P (metafield_text (admin trace ShopQuery)))"
    and "findRuleIndex discounts tableHandle 0 = Found ruleIndex"
    and "rule = js_or (discounts ! ruleIndex) (JObj [])"
    and "ids = stored_discount_ids (array_items (js_get rule ''tiers''))"
    and "trace1 = trace @ [ShopQuery]"
    and "\<forall>i < length ids. delete_accepted admin trace1 ids i"
    and "nextDiscounts = take ruleIndex discounts @ drop (Suc ruleIndex) discounts"
    and "write = MetafieldsSet [shop_metafield (shop_id (admin trace ShopQuery)) nextDiscounts]"
    and "trace2 = trace1 @ map DiscountDelete ids"
  shows "\<exists>affected. getRuleProductIds rule = Some affected \<and>
     (userErrors (admin trace2 write) \<noteq> [] \<longrightarrow>
        delete_rule P admin tableHandle trace =
          (Some (Errors (userErrors (admin trace2 write))), trace2 @ [write])) \<and>
     (userErrors (admin trace2 write) = [] \<longrightarrow>
        delete_rule P admin tableHandle trace =
          (case reproject admin nextDiscounts affected (trace2 @ [write]) of
             (None, trace4) \<Rightarrow> (None, trace4)
           | (Some projectionErrors, trace4) \<Rightarrow>
               (if projectionErrors \<noteq> [] then Some (Errors projectionErrors)
                else Some (Ok Deleted), trace4)))"
proof -
  obtain affected where af: "getRuleProductIds rule = Some affected"
    using getRuleProductIds_js_or assms(3) by blast
  note dl = delete_loop_accepted[OF assms(6)]
  have wi: "without_index ruleIndex discounts = nextDiscounts"
    using assms(7) by (simp add: without_index_take_drop)
  have 1: "delete_rule P admin tableHandle trace =
          (Some (Errors (userErrors (admin trace2 write))), trace2 @ [write])"
    if "userErrors (admin trace2 write) \<noteq> []"
    using that assms(1-5,8,9) af dl wi
    by (simp add: delete_rule_def graphql_def Let_def)
  have 2: "delete_rule P admin tableHandle trace =
          (case reproject admin nextDiscounts affected (trace2 @ [write]) of
             (None, trace4) \<Rightarrow> (None, trace4)
           | (Some projectionErrors, trace4) \<Rightarrow>
               (if projectionErrors \<noteq> [] then Some (Errors projectionErrors)
                else Some (Ok Deleted), trace4))"
    if "userErrors (admin trace2 write) = []"
    using that assms(1-5,8,9) af dl wi
    by (simp add: delete_rule_def graphql_def Let_def split: prod.splits option.splits)
  from af 1 2 show ?thesis by blast
qed

text \<open>
  C3. Deleting a rule found at \<open>ruleIndex\<close>, whose tiers carry the non-empty discount
  identifiers \<open>ids\<close>. The deletions are requested in order. If deletion \<open>k\<close> is the first
  to report user errors, the action returns those errors and its requests are the
  query of the shop and the deletions up to \<open>k\<close>: no metafield is written, neither the
  document nor a projection. If every deletion is accepted, all of \<open>ids\<close> are deleted,
  then the document without the rule at \<open>ruleIndex\<close> is written; if that write is
  accepted the projections of the products of the rule are written again, from the
  new document, and their result is the action's. A \<open>metafieldsSet\<close> among the
  requests of the action implies that every deletion was accepted.
\<close>

theorem delete_rule_discounts_first:
  assumes "discounts = config_discounts (parseDiscountConfig P (metafield_text (admin trace ShopQuery)))"
    and "findRuleIndex discounts tableHandle 0 = Found ruleIndex"
    and "rule = js_or (discounts ! ruleIndex) (JObj [])"
    and "ids = stored_discount_ids (array_items (js_get rule ''tiers''))"
    and "trace1 = trace @ [ShopQuery]"
    and "nextDiscounts = take ruleIndex discounts @ drop (Suc ruleIndex) discounts"
    and "write = MetafieldsSet [shop_metafield (shop_id (admin trace ShopQuery)) nextDiscounts]"
    and "trace2 = trace1 @ map DiscountDelete ids"
  shows
    "(\<forall>k < length ids.
        \<not> delete_accepted admin trace1 ids k \<and> (\<forall>i < k. delete_accepted admin trace1 ids i) \<longrightarrow>
        delete_rule P admin tableHandle trace =
          (Some (Errors (userErrors (admin (trace1 @ map DiscountDelete (take k ids))
                                       (DiscountDelete (ids ! k))))),
           trace1 @ map DiscountDelete (take (Suc k) ids))) \<and>
     ((\<forall>i < length ids. delete_accepted admin trace1 ids i) \<longrightarrow>
        (\<exists>affected. getRuleProductIds rule = Some affected \<and>
          (userErrors (admin trace2 write) \<noteq> [] \<longrightarrow>
             delete_rule P admin tableHandle trace =
               (Some (Errors (userErrors (admin trace2 write))), trace2 @ [write])) \<and>
          (userErrors (admin trace2 write) = [] \<longrightarrow>
             delete_rule P admin tableHandle trace =
               (case reproject admin nextDiscounts affected (trace2 @ [write]) of
                  (None, trace4) \<Rightarrow> (None, trace4)
                | (Some projectionErrors, trace4) \<Rightarrow>
                    (if projectionErrors \<noteq> [] then Some (Errors projectionErrors)
                     else Some (Ok Deleted), trace4))))) \<and>
     ((\<exists>ms. MetafieldsSet ms \<in> set (drop (length trace) (snd (delete_rule P admin tableHandle trace))))
        \<longrightarrow> (\<forall>i < length ids. delete_accepted admin trace1 ids i))"
proof (intro conjI)
  show "\<forall>k < length ids.
        \<not> delete_accepted admin trace1 ids k \<and> (\<forall>i < k. delete_accepted admin trace1 ids i) \<longrightarrow>
        delete_rule P admin tableHandle trace =
          (Some (Errors (userErrors (admin (trace1 @ map DiscountDelete (take k ids))
                                       (DiscountDelete (ids ! k))))),
           trace1 @ map DiscountDelete (take (Suc k) ids))"
    using delete_rule_rejected[where admin=admin and trace=trace and P=P, OF assms(1-5)] by blast
next
  show "(\<forall>i < length ids. delete_accepted admin trace1 ids i) \<longrightarrow>
        (\<exists>affected. getRuleProductIds rule = Some affected \<and>
          (userErrors (admin trace2 write) \<noteq> [] \<longrightarrow>
             delete_rule P admin tableHandle trace =
               (Some (Errors (userErrors (admin trace2 write))), trace2 @ [write])) \<and>
          (userErrors (admin trace2 write) = [] \<longrightarrow>
             delete_rule P admin tableHandle trace =
               (case reproject admin nextDiscounts affected (trace2 @ [write]) of
                  (None, trace4) \<Rightarrow> (None, trace4)
                | (Some projectionErrors, trace4) \<Rightarrow>
                    (if projectionErrors \<noteq> [] then Some (Errors projectionErrors)
                     else Some (Ok Deleted), trace4))))"
    using delete_rule_accepted[where admin=admin and trace=trace and P=P, OF assms(1-5) _ assms(6-8)] by blast
next
  show "(\<exists>ms. MetafieldsSet ms \<in> set (drop (length trace) (snd (delete_rule P admin tableHandle trace))))
        \<longrightarrow> (\<forall>i < length ids. delete_accepted admin trace1 ids i)"
  proof (rule impI, rule ccontr)
    assume m: "\<exists>ms. MetafieldsSet ms \<in> set (drop (length trace) (snd (delete_rule P admin tableHandle trace)))"
    assume "\<not> (\<forall>i < length ids. delete_accepted admin trace1 ids i)"
    from first_rejected_exists[OF this] obtain k where k: "k < length ids"
      "\<not> delete_accepted admin trace1 ids k" "\<forall>i < k. delete_accepted admin trace1 ids i"
      by blast
    from delete_rule_rejected[where admin=admin and trace=trace and P=P, OF assms(1-5) k]
    have "drop (length trace) (snd (delete_rule P admin tableHandle trace)) =
       ShopQuery # map DiscountDelete (take (Suc k) ids)"
      using assms(5) by simp
    with m show False by auto
  qed
qed


theorem delete_rule_discounts_first_witness:
  "findRuleIndex
     (config_discounts (parseDiscountConfig example_parse
        (metafield_text (rejecting (DiscountDelete ''d2'') [] ShopQuery)))) ''bulk-a'' 0 = Found 0 \<and>
   stored_discount_ids (array_items (js_get (js_or
     (config_discounts (parseDiscountConfig example_parse
        (metafield_text (rejecting (DiscountDelete ''d2'') [] ShopQuery))) ! 0) (JObj [])) ''tiers''))
     = [''d1'', ''d2''] \<and>
   delete_accepted (rejecting (DiscountDelete ''d2'')) [ShopQuery] [''d1'', ''d2''] 0 \<and>
   \<not> delete_accepted (rejecting (DiscountDelete ''d2'')) [ShopQuery] [''d1'', ''d2''] 1 \<and>
   delete_rule example_parse (rejecting (DiscountDelete ''d2'')) ''bulk-a'' [] =
     (Some (Errors [''rejected'']), [ShopQuery, DiscountDelete ''d1'', DiscountDelete ''d2''])"
proof -
  let ?admin = "rejecting (DiscountDelete ''d2'')"
  let ?ds = "config_discounts (parseDiscountConfig example_parse
        (metafield_text (?admin [] ShopQuery)))"
  let ?ids = "stored_discount_ids (array_items (js_get (js_or (?ds ! 0) (JObj [])) ''tiers''))"
  have f: "findRuleIndex ?ds ''bulk-a'' 0 = Found 0" by code_simp
  have i: "?ids = [''d1'', ''d2'']" by code_simp
  have a0: "delete_accepted ?admin [ShopQuery] [''d1'', ''d2''] 0" by code_simp
  have a1: "\<not> delete_accepted ?admin [ShopQuery] [''d1'', ''d2''] 1" by code_simp
  have e: "userErrors (?admin (([] @ [ShopQuery]) @ map DiscountDelete (take 1 [''d1'', ''d2'']))
                         (DiscountDelete ([''d1'', ''d2''] ! 1))) = [''rejected'']"
    by code_simp
  have tr: "([] @ [ShopQuery]) @ map DiscountDelete (take (Suc 1) [''d1'', ''d2'']) =
     [ShopQuery, DiscountDelete ''d1'', DiscountDelete ''d2'']"
    by code_simp
  note T = delete_rule_discounts_first [where P = example_parse and admin = ?admin
      and trace = "[]" and tableHandle = "''bulk-a''", OF refl f refl refl refl refl refl refl,
      THEN conjunct1, rule_format, of 1]
  have l: "1 < length ?ids" unfolding i by simp
  have p: "\<not> delete_accepted ?admin ([] @ [ShopQuery]) ?ids 1 \<and>
       (\<forall>i < 1. delete_accepted ?admin ([] @ [ShopQuery]) ?ids i)"
    unfolding i using a0 a1 by simp
  have "delete_rule example_parse ?admin ''bulk-a'' [] =
     (Some (Errors [''rejected'']), [ShopQuery, DiscountDelete ''d1'', DiscountDelete ''d2''])"
    using T[OF l p] unfolding i e tr .
  with f i a0 a1 show ?thesis by blast
qed

subsection \<open>Updating a rule: the requests and the tiers stored\<close>

lemma reconcile_tiers_requests:
  "\<exists>ws. snd (reconcile_tiers admin ctx tiers acc trace) = trace @ ws \<and>
        list_all (\<lambda>r. \<not> writes_metafields r) ws"
proof (induction tiers arbitrary: acc trace)
  case Nil
  then show ?case by simp
next
  case (Cons tier tiers)
  have a: "\<exists>ws. snd (reconcile_tiers admin ctx tiers acc' (trace @ [r])) = trace @ ws \<and>
        list_all (\<lambda>r. \<not> writes_metafields r) ws"
    if "\<not> writes_metafields r" for acc' r
  proof -
    from Cons.IH[of acc' "trace @ [r]"] obtain ws where
      "snd (reconcile_tiers admin ctx tiers acc' (trace @ [r])) = (trace @ [r]) @ ws"
      "list_all (\<lambda>r. \<not> writes_metafields r) ws" by blast
    with that show ?thesis by (intro exI[of _ "r # ws"]) simp
  qed
  have u: "\<not> writes_metafields (DiscountUpdate d i)" for d i
    by (simp add: writes_metafields_def)
  have c: "\<not> writes_metafields (DiscountCreate i)" for i
    by (simp add: writes_metafields_def)
  show ?case
    using Cons.IH[of "acc @ [tier]" trace] a[OF u] a[OF c] u c
    by (simp add: Let_def graphql_def split: prod.splits option.splits)
qed

lemma delete_loop_requests:
  "\<exists>ws. snd (delete_loop admin ids trace) = trace @ ws \<and>
        list_all (\<lambda>r. \<not> writes_metafields r) ws"
proof (induction ids arbitrary: trace)
  case Nil
  then show ?case by simp
next
  case (Cons d ids)
  from Cons.IH[of "trace @ [DiscountDelete d]"] obtain ws where
    "snd (delete_loop admin ids (trace @ [DiscountDelete d])) = (trace @ [DiscountDelete d]) @ ws"
    "list_all (\<lambda>r. \<not> writes_metafields r) ws" by blast
  then have "\<exists>ws. snd (delete_loop admin ids (trace @ [DiscountDelete d])) = trace @ ws \<and>
        list_all (\<lambda>r. \<not> writes_metafields r) ws"
    by (intro exI[of _ "DiscountDelete d # ws"]) (simp add: writes_metafields_def)
  then show ?case
    by (simp add: Let_def graphql_def writes_metafields_def)
qed

lemma status_loop_requests:
  "\<exists>ws. status_loop admin st ids trace = trace @ ws \<and>
        list_all (\<lambda>r. \<not> writes_metafields r) ws"
proof (induction ids arbitrary: trace)
  case Nil
  then show ?case by simp
next
  case (Cons d ids)
  let ?r = "if st = ''inactive'' then DiscountDeactivate d else DiscountActivate d"
  have n: "\<not> writes_metafields ?r" by (simp add: writes_metafields_def)
  from Cons.IH[of "trace @ [?r]"] obtain ws where
    "status_loop admin st ids (trace @ [?r]) = (trace @ [?r]) @ ws"
    "list_all (\<lambda>r. \<not> writes_metafields r) ws" by blast
  with n have "\<exists>ws. status_loop admin st ids (trace @ [?r]) = trace @ ws \<and>
        list_all (\<lambda>r. \<not> writes_metafields r) ws"
    by (intro exI[of _ "?r # ws"]) simp
  then show ?case by (simp add: graphql_def)
qed

lemma build_metafields_projections:
  "build_metafields discounts productIds acc = Some ms \<Longrightarrow>
   \<exists>new. ms = acc @ new \<and> map mf_ownerId new = map Some productIds \<and>
     (\<forall>m \<in> set new. \<exists>p. mf_value m = ProjectionJson p)"
proof (induction productIds arbitrary: acc)
  case Nil
  then show ?case by simp
next
  case (Cons productId productIds)
  from Cons.prems obtain p where p: "buildProductTierProjection discounts productId = Some p"
    and b: "build_metafields discounts productIds (acc @ [projection_metafield productId p]) = Some ms"
    by (auto split: option.splits)
  from Cons.IH[OF b] obtain new where new: "ms = (acc @ [projection_metafield productId p]) @ new"
    "map mf_ownerId new = map Some productIds"
    "\<forall>m \<in> set new. \<exists>p. mf_value m = ProjectionJson p" by blast
  show ?case
    by (rule exI[of _ "projection_metafield productId p # new"])
       (use new in \<open>auto simp: projection_metafield_def\<close>)
qed

lemma projection_chunk_write:
  assumes "c \<noteq> []" "\<forall>m \<in> set c. \<exists>p. mf_value m = ProjectionJson p"
  shows "is_projection_write (MetafieldsSet c) \<and> \<not> is_document_write (MetafieldsSet c)"
proof -
  from assms obtain m p where "m \<in> set c" "mf_value m = ProjectionJson p"
    by (cases c) auto
  then have "is_projection_write (MetafieldsSet c)"
    unfolding is_projection_write_def list_ex_iff
    by (auto intro!: bexI[of _ m])
  moreover have "\<not> is_document_write (MetafieldsSet c)"
    using assms(2) by (auto simp: is_document_write_def list_ex_iff)
  ultimately show ?thesis by simp
qed

lemma reproject_requests:
  "\<exists>ps. snd (reproject admin discounts affected trace) = trace @ ps \<and>
     list_all (\<lambda>r. is_projection_write r \<and> \<not> is_document_write r) ps"
proof -
  let ?ids = "normalizeProductIds (JArr (map JStr affected))"
  show ?thesis
  proof (cases "build_metafields (JArr discounts) ?ids []")
    case None
    then show ?thesis
      by (simp add: reproject_def recomputeProductDiscountProjectionMetafields_def Let_def)
  next
    case (Some ms)
    from build_metafields_projections[OF Some]
    have pj: "\<forall>m \<in> set ms. \<exists>p. mf_value m = ProjectionJson p" by auto
    from chunkArray_returns[of ms] obtain chunks where ch:
      "chunkArray ms MAX_METAFIELDS_SET = Some chunks" "concat chunks = ms"
      "\<forall>c \<in> set chunks. 0 < length c \<and> length c \<le> 25" by blast
    have "list_all (\<lambda>r. is_projection_write r \<and> \<not> is_document_write r) (map MetafieldsSet chunks)"
      unfolding list_all_iff
    proof
      fix r assume "r \<in> set (map MetafieldsSet chunks)"
      then obtain c where c: "c \<in> set chunks" "r = MetafieldsSet c" by auto
      with ch(3) have "c \<noteq> []" by auto
      moreover from c(1) ch(2) pj have "\<forall>m \<in> set c. \<exists>p. mf_value m = ProjectionJson p"
        by auto
      ultimately show "is_projection_write r \<and> \<not> is_document_write r"
        using projection_chunk_write c(2) by blast
    qed
    with Some ch(1) show ?thesis
      by (simp add: reproject_def recomputeProductDiscountProjectionMetafields_def Let_def
            set_chunks_trace[of admin chunks "[]" trace])
  qed
qed


lemma update_commit_cases:
  fixes P admin h v trace
  defines "discounts \<equiv> stored_rules P admin trace"
    and "sid \<equiv> shop_id (admin trace ShopQuery)"
  shows "\<exists>cs. list_all (\<lambda>r. \<not> writes_metafields r) cs \<and>
     ((\<exists>a. (a = None \<or> (\<exists>e. a = Some (Errors e))) \<and>
          update_commit P admin h v trace = (Inl a, trace @ cs)) \<or>
      (\<exists>w. is_document_write w \<and> userErrors (admin (trace @ cs) w) \<noteq> [] \<and>
          update_commit P admin h v trace =
            (Inl (Some (Errors (userErrors (admin (trace @ cs) w)))), trace @ cs @ [w])) \<or>
      (\<exists>ruleIndex prev tw.
          findRuleIndex discounts h 0 = Found ruleIndex \<and>
          getRuleProductIds (rule_at discounts ruleIndex) = Some prev \<and>
          fst (reconcile_tiers admin
                 (update_context (array_items (js_get (rule_at discounts ruleIndex) ''tiers''))
                    prev (v_productIds v))
                 (v_tiers v) [] (trace @ [ShopQuery])) = Reconciled tw \<and>
          userErrors (admin (trace @ cs)
            (MetafieldsSet [shop_metafield sid
               (discounts[ruleIndex := updated_rule (rule_at discounts ruleIndex) (v_title v)
                  (v_status v) (v_productIds v) (sort_key min_key tw)])])) = [] \<and>
          update_commit P admin h v trace =
            (Inr \<lparr>k_discounts =
                    discounts[ruleIndex := updated_rule (rule_at discounts ruleIndex) (v_title v)
                      (v_status v) (v_productIds v) (sort_key min_key tw)],
                  k_previousProductIds = prev, k_tiers = sort_key min_key tw\<rparr>,
             trace @ cs @
               [MetafieldsSet [shop_metafield sid
                  (discounts[ruleIndex := updated_rule (rule_at discounts ruleIndex) (v_title v)
                      (v_status v) (v_productIds v) (sort_key min_key tw)])]])))"
proof -
  have q: "\<not> writes_metafields ShopQuery" by (simp add: writes_metafields_def)
  have d: "config_discounts (parseDiscountConfig P (metafield_text (admin trace ShopQuery)))
     = discounts" by (simp add: discounts_def stored_rules_def)
  show ?thesis
  proof (cases "findRuleIndex discounts h 0")
    case TypeError
    then have "update_commit P admin h v trace = (Inl None, trace @ [ShopQuery])"
      by (simp add: update_commit_def graphql_def Let_def d)
    with q show ?thesis by (intro exI[of _ "[ShopQuery]"]) simp
  next
    case NotFound
    then have "update_commit P admin h v trace =
       (Inl (Some (Errors [''Rule not found.''])), trace @ [ShopQuery])"
      by (simp add: update_commit_def graphql_def Let_def d)
    with q show ?thesis by (intro exI[of _ "[ShopQuery]"]) simp
  next
    case (Found ruleIndex)
    let ?rule = "rule_at discounts ruleIndex"
    have r: "js_or (discounts ! ruleIndex) (JObj []) = ?rule" by (simp add: rule_at_def)
    obtain prev where prev: "getRuleProductIds ?rule = Some prev"
      using getRuleProductIds_js_or[of "discounts ! ruleIndex"] by (auto simp: rule_at_def)
    let ?ctx = "update_context (array_items (js_get ?rule ''tiers'')) prev (v_productIds v)"
    obtain lr tr2 where rt:
      "reconcile_tiers admin ?ctx (v_tiers v) [] (trace @ [ShopQuery]) = (lr, tr2)"
      by (cases "reconcile_tiers admin ?ctx (v_tiers v) [] (trace @ [ShopQuery])") auto
    from reconcile_tiers_requests[of admin ?ctx "v_tiers v" "[]" "trace @ [ShopQuery]"] rt
    obtain ws1 where ws1: "tr2 = (trace @ [ShopQuery]) @ ws1"
      "list_all (\<lambda>r. \<not> writes_metafields r) ws1" by auto
    show ?thesis
    proof (cases "\<exists>tw. lr = Reconciled tw")
      case False
      then have "update_commit P admin h v trace = (Inl (Some (Errors (loop_errors lr))), tr2)"
        using Found prev rt
        by (cases lr) (simp_all add: update_commit_def graphql_def Let_def d r)
      with ws1 q show ?thesis by (intro exI[of _ "ShopQuery # ws1"]) simp
    next
      case True
      then obtain tw where tw: "lr = Reconciled tw" by blast
      let ?nextTiers = "sort_key min_key tw"
      let ?nextIds = "List.map_filter tier_discount_id ?nextTiers"
      let ?removed = "filter (\<lambda>discountId. discountId \<notin> set ?nextIds)
          (stored_discount_ids (array_items (js_get ?rule ''tiers'')))"
      obtain de tr3 where dl: "delete_loop admin ?removed tr2 = (de, tr3)"
        by (cases "delete_loop admin ?removed tr2") auto
      from delete_loop_requests[of admin ?removed tr2] dl
      obtain ws2 where ws2: "tr3 = tr2 @ ws2" "list_all (\<lambda>r. \<not> writes_metafields r) ws2"
        by auto
      show ?thesis
      proof (cases "de = []")
        case False
        then have "update_commit P admin h v trace = (Inl (Some (Errors de)), tr3)"
          using Found prev rt tw dl
          by (simp add: update_commit_def graphql_def Let_def d r)
        with ws1 ws2 q show ?thesis by (intro exI[of _ "ShopQuery # ws1 @ ws2"]) simp
      next
        case True
        from status_loop_requests[of admin "v_status v" ?nextIds tr3]
        obtain ws3 where ws3: "status_loop admin (v_status v) ?nextIds tr3 = tr3 @ ws3"
          "list_all (\<lambda>r. \<not> writes_metafields r) ws3" by blast
        let ?cs = "ShopQuery # ws1 @ ws2 @ ws3"
        let ?docs = "discounts[ruleIndex := updated_rule ?rule (v_title v)
                  (v_status v) (v_productIds v) ?nextTiers]"
        let ?w = "MetafieldsSet [shop_metafield sid ?docs]"
        have t4: "tr3 @ ws3 = trace @ ?cs" using ws1(1) ws2(1) by simp
        have cs: "list_all (\<lambda>r. \<not> writes_metafields r) ?cs" using q ws1(2) ws2(2) ws3(2) by simp
        have dw: "is_document_write ?w"
          by (simp add: is_document_write_def shop_metafield_def)
        have f: "fst (reconcile_tiers admin ?ctx (v_tiers v) [] (trace @ [ShopQuery])) = Reconciled tw"
          using rt tw by simp
        show ?thesis
        proof (cases "userErrors (admin (trace @ ?cs) ?w) = []")
          case False
          then have "update_commit P admin h v trace =
             (Inl (Some (Errors (userErrors (admin (trace @ ?cs) ?w)))), trace @ ?cs @ [?w])"
            using Found prev rt tw dl True ws3(1) t4
            by (simp add: update_commit_def graphql_def Let_def d r sid_def)
          with cs dw False show ?thesis
            by (intro exI[of _ ?cs]) blast
        next
          case e: True
          then have "update_commit P admin h v trace =
             (Inr \<lparr>k_discounts = ?docs, k_previousProductIds = prev, k_tiers = ?nextTiers\<rparr>,
              trace @ ?cs @ [?w])"
            using Found prev rt tw dl True ws3(1) t4
            by (simp add: update_commit_def graphql_def Let_def d r sid_def)
          with cs e Found prev f show ?thesis
            by (intro exI[of _ ?cs]) blast
        qed
      qed
    qed
  qed
qed

lemma attached_refl: "attached p p"
  by (simp add: attached_def)

lemma attached_created:
  "attached p (p\<lparr>t_spread := AList.update ''discount_id'' (JStr d) (t_spread p)\<rparr>)"
  by (simp add: attached_def update_conv')

lemma attached_min_key: "attached p t \<Longrightarrow> min_key t = min_key p \<and> t_min_quantity t = t_min_quantity p"
  by (auto simp: attached_def min_key_def split: option.splits jsval.splits)

lemma reconcile_tiers_Reconciled:
  "reconcile_tiers admin ctx tiers acc trace = (Reconciled out, trace') \<Longrightarrow>
   \<exists>new. out = acc @ new \<and> list_all2 attached tiers new"
proof (induction tiers arbitrary: acc trace)
  case Nil
  then show ?case by simp
next
  case (Cons tier tiers)
  have step: "\<exists>new. out = acc @ new \<and> list_all2 attached (tier # tiers) new"
    if "reconcile_tiers admin ctx tiers (acc @ [t]) tr = (Reconciled out, trace')" "attached tier t"
    for t tr
  proof -
    from Cons.IH[OF that(1)] obtain new where "out = (acc @ [t]) @ new" "list_all2 attached tiers new"
      by blast
    with that(2) show ?thesis by (intro exI[of _ "t # new"]) simp
  qed
  from Cons.prems show ?case
    by (auto simp: Let_def graphql_def split: if_splits prod.splits option.splits
             intro: step attached_refl attached_created)
qed

lemma list_all2_filter_key:
  assumes "list_all2 R xs ys" "\<And>x y. R x y \<Longrightarrow> key y = key x"
  shows "list_all2 R (filter (\<lambda>x. key x = q) xs) (filter (\<lambda>y. key y = q) ys)"
  using assms(1)
proof (induction rule: list_all2_induct)
  case Nil
  then show ?case by simp
next
  case (Cons x xs y ys)
  with assms(2)[of x y] show ?case by simp
qed

lemma update_validate_tiers:
  assumes "update_validate P form = Inr v"
  shows "v_tiers v = sort_key min_key (form_tiers P form)"
    "\<forall>t \<in> set (form_tiers P form). \<not> invalid_tier t"
proof -
  from assms have "find_index invalid_tier (form_tiers P form) = None"
    by (auto simp: update_validate_def Let_def split: if_splits option.splits)
  then show "\<forall>t \<in> set (form_tiers P form). \<not> invalid_tier t"
    by (simp add: find_index_None)
  from assms show "v_tiers v = sort_key min_key (form_tiers P form)"
    by (auto simp: update_validate_def Let_def split: if_splits option.splits)
qed

lemma valid_tier_min: "\<not> invalid_tier t \<Longrightarrow> t_min_quantity t = Some (min_key t) \<and> 1 \<le> min_key t"
  by (auto simp: invalid_tier_def min_key_def split: option.splits)

lemma tier_js_min_quantity:
  "js_get (tier_js t) ''min_quantity'' = num_js (t_min_quantity t)"
  by (simp add: tier_js_def update_conv')

lemma updated_rule_tiers:
  "js_get (updated_rule rule title status ids tiers) ''tiers'' = JArr (map tier_js tiers)"
  by (simp add: updated_rule_def update_conv')

lemma fetchProductSummaries_requests:
  "\<exists>rest. snd (fetchProductSummaries admin ids trace) = trace @ rest \<and>
     list_all (\<lambda>r. \<not> writes_metafields r) rest"
  by (simp add: fetchProductSummaries_def graphql_def Let_def writes_metafields_def
        split: prod.splits)

lemma update_finish_cases:
  "\<exists>r ps. reproject admin (k_discounts k) (from_set (k_previousProductIds k @ v_productIds v)) t5
       = (r, t5 @ ps) \<and>
     list_all (\<lambda>r. is_projection_write r \<and> \<not> is_document_write r) ps \<and>
     (r = None \<longrightarrow> update_finish admin v k t5 = (None, t5 @ ps)) \<and>
     (\<forall>errs. r = Some errs \<and> errs \<noteq> [] \<longrightarrow>
        update_finish admin v k t5 = (Some (Errors errs), t5 @ ps)) \<and>
     (r = Some [] \<longrightarrow>
        (\<exists>products rest. list_all (\<lambda>r. \<not> writes_metafields r) rest \<and>
           update_finish admin v k t5 =
             (Some (Ok (Updated \<lparr>r_nextHandle = toKebabCase (v_title v), r_nextTitle = v_title v,
                       r_nextStatus = v_status v, r_nextProducts = products,
                       r_nextTiers = k_tiers k\<rparr>)), t5 @ ps @ rest)))"
proof -
  let ?aff = "from_set (k_previousProductIds k @ v_productIds v)"
  obtain r t6 where rp: "reproject admin (k_discounts k) ?aff t5 = (r, t6)"
    by (cases "reproject admin (k_discounts k) ?aff t5") auto
  from reproject_requests[of admin "k_discounts k" ?aff t5] rp obtain ps where
    ps: "t6 = t5 @ ps" "list_all (\<lambda>r. is_projection_write r \<and> \<not> is_document_write r) ps"
    by auto
  from fetchProductSummaries_requests[of admin "v_productIds v" t6] obtain rest where
    rest: "snd (fetchProductSummaries admin (v_productIds v) t6) = t6 @ rest"
     "list_all (\<lambda>r. \<not> writes_metafields r) rest" by blast
  have 1: "r = None \<longrightarrow> update_finish admin v k t5 = (None, t5 @ ps)"
    using rp ps(1) by (simp add: update_finish_def Let_def)
  have 2: "\<forall>errs. r = Some errs \<and> errs \<noteq> [] \<longrightarrow>
        update_finish admin v k t5 = (Some (Errors errs), t5 @ ps)"
    using rp ps(1) by (simp add: update_finish_def Let_def)
  have 3: "r = Some [] \<longrightarrow>
        (\<exists>products rest. list_all (\<lambda>r. \<not> writes_metafields r) rest \<and>
           update_finish admin v k t5 =
             (Some (Ok (Updated \<lparr>r_nextHandle = toKebabCase (v_title v), r_nextTitle = v_title v,
                       r_nextStatus = v_status v, r_nextProducts = products,
                       r_nextTiers = k_tiers k\<rparr>)), t5 @ ps @ rest))"
  proof
    assume "r = Some []"
    then have "update_finish admin v k t5 =
             (Some (Ok (Updated \<lparr>r_nextHandle = toKebabCase (v_title v), r_nextTitle = v_title v,
                       r_nextStatus = v_status v,
                       r_nextProducts = fst (fetchProductSummaries admin (v_productIds v) t6),
                       r_nextTiers = k_tiers k\<rparr>)), t5 @ ps @ rest)"
      using rp ps(1) rest(1)
      by (auto simp: update_finish_def Let_def split: prod.splits)
    with rest(2) show "\<exists>products rest. list_all (\<lambda>r. \<not> writes_metafields r) rest \<and>
           update_finish admin v k t5 =
             (Some (Ok (Updated \<lparr>r_nextHandle = toKebabCase (v_title v), r_nextTitle = v_title v,
                       r_nextStatus = v_status v, r_nextProducts = products,
                       r_nextTiers = k_tiers k\<rparr>)), t5 @ ps @ rest)" by blast
  qed
  from rp ps 1 2 3 show ?thesis by blast
qed

lemma not_writes_metafields:
  "\<not> writes_metafields r \<Longrightarrow> \<not> is_document_write r \<and> \<not> is_projection_write r"
  by (cases r) (simp_all add: writes_metafields_def is_document_write_def is_projection_write_def)

lemma update_rule_Ok:
  assumes "update_rule P admin h form trace = (Some (Ok (Updated res)), trace')"
  shows "\<exists>v ruleIndex prev tw cs ps rest.
     update_validate P form = Inr v \<and>
     findRuleIndex (stored_rules P admin trace) h 0 = Found ruleIndex \<and>
     getRuleProductIds (rule_at (stored_rules P admin trace) ruleIndex) = Some prev \<and>
     fst (reconcile_tiers admin
            (update_context
               (array_items (js_get (rule_at (stored_rules P admin trace) ruleIndex) ''tiers''))
               prev (v_productIds v))
            (v_tiers v) [] (trace @ [ShopQuery])) = Reconciled tw \<and>
     r_nextTiers res = sort_key min_key tw \<and>
     list_all (\<lambda>r. \<not> writes_metafields r) cs \<and>
     list_all (\<lambda>r. is_projection_write r \<and> \<not> is_document_write r) ps \<and>
     list_all (\<lambda>r. \<not> writes_metafields r) rest \<and>
     trace' = trace @ cs @
       [MetafieldsSet [shop_metafield (shop_id (admin trace ShopQuery))
          ((stored_rules P admin trace)[ruleIndex :=
              updated_rule (rule_at (stored_rules P admin trace) ruleIndex) (v_title v)
                (v_status v) (v_productIds v) (sort_key min_key tw)])]] @ ps @ rest"
proof -
  from assms obtain v where v: "update_validate P form = Inr v"
    by (cases "update_validate P form") (auto simp: update_rule_def)
  from update_commit_cases[where P=P and admin=admin and h=h and v=v and trace=trace] obtain cs where
    cs: "list_all (\<lambda>r. \<not> writes_metafields r) cs" and
    c: "(\<exists>a. (a = None \<or> (\<exists>e. a = Some (Errors e))) \<and>
          update_commit P admin h v trace = (Inl a, trace @ cs)) \<or>
      (\<exists>w. is_document_write w \<and> userErrors (admin (trace @ cs) w) \<noteq> [] \<and>
          update_commit P admin h v trace =
            (Inl (Some (Errors (userErrors (admin (trace @ cs) w)))), trace @ cs @ [w])) \<or>
      (\<exists>ruleIndex prev tw.
          findRuleIndex (stored_rules P admin trace) h 0 = Found ruleIndex \<and>
          getRuleProductIds (rule_at (stored_rules P admin trace) ruleIndex) = Some prev \<and>
          fst (reconcile_tiers admin
                 (update_context (array_items (js_get (rule_at (stored_rules P admin trace) ruleIndex) ''tiers''))
                    prev (v_productIds v))
                 (v_tiers v) [] (trace @ [ShopQuery])) = Reconciled tw \<and>
          userErrors (admin (trace @ cs)
            (MetafieldsSet [shop_metafield (shop_id (admin trace ShopQuery))
               ((stored_rules P admin trace)[ruleIndex := updated_rule (rule_at (stored_rules P admin trace) ruleIndex) (v_title v)
                  (v_status v) (v_productIds v) (sort_key min_key tw)])])) = [] \<and>
          update_commit P admin h v trace =
            (Inr \<lparr>k_discounts =
                    (stored_rules P admin trace)[ruleIndex := updated_rule (rule_at (stored_rules P admin trace) ruleIndex) (v_title v)
                      (v_status v) (v_productIds v) (sort_key min_key tw)],
                  k_previousProductIds = prev, k_tiers = sort_key min_key tw\<rparr>,
             trace @ cs @
               [MetafieldsSet [shop_metafield (shop_id (admin trace ShopQuery))
                  ((stored_rules P admin trace)[ruleIndex := updated_rule (rule_at (stored_rules P admin trace) ruleIndex) (v_title v)
                      (v_status v) (v_productIds v) (sort_key min_key tw)])]]))"
    by blast
  have ninl: "update_commit P admin h v trace \<noteq> (Inl a, t)"
    if "a = None \<or> (\<exists>e. a = Some (Errors e))" for a t
  proof
    assume "update_commit P admin h v trace = (Inl a, t)"
    with assms v have "a = Some (Ok (Updated res))" by (simp add: update_rule_def)
    with that show False by auto
  qed
  from c ninl obtain ruleIndex prev tw where
        f: "findRuleIndex (stored_rules P admin trace) h 0 = Found ruleIndex"
      and p: "getRuleProductIds (rule_at (stored_rules P admin trace) ruleIndex) = Some prev"
      and rt: "fst (reconcile_tiers admin
                 (update_context (array_items (js_get (rule_at (stored_rules P admin trace) ruleIndex) ''tiers''))
                    prev (v_productIds v))
                 (v_tiers v) [] (trace @ [ShopQuery])) = Reconciled tw"
      and uc: "update_commit P admin h v trace =
         (Inr \<lparr>k_discounts = (stored_rules P admin trace)[ruleIndex :=
                  updated_rule (rule_at (stored_rules P admin trace) ruleIndex) (v_title v)
                      (v_status v) (v_productIds v) (sort_key min_key tw)],
               k_previousProductIds = prev, k_tiers = sort_key min_key tw\<rparr>,
          trace @ cs @ [MetafieldsSet [shop_metafield (shop_id (admin trace ShopQuery))
             ((stored_rules P admin trace)[ruleIndex :=
                  updated_rule (rule_at (stored_rules P admin trace) ruleIndex) (v_title v)
                      (v_status v) (v_productIds v) (sort_key min_key tw)])]])"
    by blast
  show ?thesis
  proof -
    let ?docs = "(stored_rules P admin trace)[ruleIndex :=
        updated_rule (rule_at (stored_rules P admin trace) ruleIndex) (v_title v)
                      (v_status v) (v_productIds v) (sort_key min_key tw)]"
    let ?k = "\<lparr>k_discounts = ?docs, k_previousProductIds = prev, k_tiers = sort_key min_key tw\<rparr>"
    let ?t5 = "trace @ cs @ [MetafieldsSet [shop_metafield (shop_id (admin trace ShopQuery)) ?docs]]"
    from uc v have ur: "update_rule P admin h form trace = update_finish admin v ?k ?t5"
      by (simp add: update_rule_def)
    from update_finish_cases[of admin ?k v ?t5] obtain r ps where
      ps: "list_all (\<lambda>r. is_projection_write r \<and> \<not> is_document_write r) ps"
      and n: "r = None \<longrightarrow> update_finish admin v ?k ?t5 = (None, ?t5 @ ps)"
      and e: "\<forall>errs. r = Some errs \<and> errs \<noteq> [] \<longrightarrow>
          update_finish admin v ?k ?t5 = (Some (Errors errs), ?t5 @ ps)"
      and o: "r = Some [] \<longrightarrow>
        (\<exists>products rest. list_all (\<lambda>r. \<not> writes_metafields r) rest \<and>
           update_finish admin v ?k ?t5 =
             (Some (Ok (Updated \<lparr>r_nextHandle = toKebabCase (v_title v), r_nextTitle = v_title v,
                       r_nextStatus = v_status v, r_nextProducts = products,
                       r_nextTiers = k_tiers ?k\<rparr>)), ?t5 @ ps @ rest))"
      by blast
    have "r = Some []"
    proof (cases r)
      case None
      with n ur assms show ?thesis by simp
    next
      case (Some errs)
      with e ur assms show ?thesis by (cases "errs = []") auto
    qed
    with o obtain products rest where rest: "list_all (\<lambda>r. \<not> writes_metafields r) rest"
      "update_finish admin v ?k ?t5 =
             (Some (Ok (Updated \<lparr>r_nextHandle = toKebabCase (v_title v), r_nextTitle = v_title v,
                       r_nextStatus = v_status v, r_nextProducts = products,
                       r_nextTiers = k_tiers ?k\<rparr>)), ?t5 @ ps @ rest)" by blast
    with ur assms have "r_nextTiers res = sort_key min_key tw" "trace' = ?t5 @ ps @ rest"
      by auto
    with v f p rt cs ps rest(1) show ?thesis
      by (intro exI[of _ v] exI[of _ ruleIndex] exI[of _ prev] exI[of _ tw] exI[of _ cs]
               exI[of _ ps] exI[of _ rest]) simp
  qed
qed

lemma findRuleIndex_in_range:
  "findRuleIndex ds h 0 = Found i \<Longrightarrow> i < length ds"
  using findRuleIndex_Found[of ds h 0 i] by simp

text \<open>
  C5. After an update that succeeds, the document is written once, and it is the
  stored document with the rule found at \<open>ruleIndex\<close> replaced at that index (the other
  rules and their order are those of the stored list); the \<open>tiers\<close> of the rule
  written are the tiers of the answer; the \<open>min_quantity\<close> they carry are numbers in
  ascending order, whatever the order of the form; and the sort is stable: for every
  threshold, the tiers written at it are the tiers submitted at it, in the order of the
  form, each as submitted or with the identifier of the discount created for it.
\<close>

theorem update_persists_sorted_tiers:
  assumes "update_rule P admin h form trace = (Some (Ok (Updated res)), trace')"
  shows "\<exists>ruleIndex rule' before after.
     findRuleIndex (stored_rules P admin trace) h 0 = Found ruleIndex \<and>
     ruleIndex < length (stored_rules P admin trace) \<and>
     trace' = trace @ before @
        document_write (shop_id (admin trace ShopQuery))
          ((stored_rules P admin trace)[ruleIndex := rule']) # after \<and>
     list_all (\<lambda>r. \<not> is_document_write r) (before @ after) \<and>
     js_get rule' ''tiers'' = JArr (map tier_js (r_nextTiers res)) \<and>
     map (\<lambda>t. js_get (tier_js t) ''min_quantity'') (r_nextTiers res) =
       map (\<lambda>t. JNum (of_int (min_key t))) (r_nextTiers res) \<and>
     sorted (map min_key (r_nextTiers res)) \<and>
     (\<forall>q. list_all2 attached (filter (\<lambda>t. min_key t = q) (form_tiers P form))
                              (filter (\<lambda>t. min_key t = q) (r_nextTiers res)))"
proof -
  from update_rule_Ok[OF assms] obtain v ruleIndex prev tw cs ps rest where
    v: "update_validate P form = Inr v"
    and f: "findRuleIndex (stored_rules P admin trace) h 0 = Found ruleIndex"
    and rt: "fst (reconcile_tiers admin
            (update_context
               (array_items (js_get (rule_at (stored_rules P admin trace) ruleIndex) ''tiers''))
               prev (v_productIds v))
            (v_tiers v) [] (trace @ [ShopQuery])) = Reconciled tw"
    and nt: "r_nextTiers res = sort_key min_key tw"
    and cs: "list_all (\<lambda>r. \<not> writes_metafields r) cs"
    and ps: "list_all (\<lambda>r. is_projection_write r \<and> \<not> is_document_write r) ps"
    and rest: "list_all (\<lambda>r. \<not> writes_metafields r) rest"
    and tr: "trace' = trace @ cs @
       [MetafieldsSet [shop_metafield (shop_id (admin trace ShopQuery))
          ((stored_rules P admin trace)[ruleIndex :=
              updated_rule (rule_at (stored_rules P admin trace) ruleIndex) (v_title v)
                (v_status v) (v_productIds v) (sort_key min_key tw)])]] @ ps @ rest"
    by blast
  let ?ctx = "update_context
               (array_items (js_get (rule_at (stored_rules P admin trace) ruleIndex) ''tiers''))
               prev (v_productIds v)"
  obtain t2 where "reconcile_tiers admin ?ctx (v_tiers v) [] (trace @ [ShopQuery]) = (Reconciled tw, t2)"
    using rt by (cases "reconcile_tiers admin ?ctx (v_tiers v) [] (trace @ [ShopQuery])") auto
  from reconcile_tiers_Reconciled[OF this]
  have att: "list_all2 attached (v_tiers v) tw" by simp
  note vt = update_validate_tiers[OF v]
  have keys: "map min_key tw = map min_key (v_tiers v)"
    using att attached_min_key by (induction rule: list_all2_induct) auto
  have "sorted (map min_key tw)" unfolding keys vt(1) by simp
  then have id: "sort_key min_key tw = tw" by (rule sort_key_id_if_sorted)
  have next_tw: "r_nextTiers res = tw" using nt id by simp
  have sorted: "sorted (map min_key (r_nextTiers res))"
    using \<open>sorted (map min_key tw)\<close> next_tw by simp
  have stable: "list_all2 attached (filter (\<lambda>t. min_key t = q) (form_tiers P form))
                              (filter (\<lambda>t. min_key t = q) (r_nextTiers res))" for q
  proof -
    have "list_all2 attached (filter (\<lambda>t. min_key t = q) (v_tiers v))
                              (filter (\<lambda>t. min_key t = q) tw)"
      using att attached_min_key by (intro list_all2_filter_key) auto
    moreover have "filter (\<lambda>t. min_key t = q) (v_tiers v) =
       filter (\<lambda>t. min_key t = q) (form_tiers P form)"
      unfolding vt(1) by (rule sort_key_stable)
    ultimately show ?thesis using next_tw by simp
  qed
  have nums: "map (\<lambda>t. js_get (tier_js t) ''min_quantity'') (r_nextTiers res) =
       map (\<lambda>t. JNum (of_int (min_key t))) (r_nextTiers res)"
  proof -
    have "t_min_quantity t = Some (min_key t)" if "t \<in> set tw" for t
    proof -
      from that obtain i where i: "i < length tw" "t = tw ! i"
        by (auto simp: in_set_conv_nth)
      with att have "attached (v_tiers v ! i) t" "i < length (v_tiers v)"
        by (auto simp: list_all2_conv_all_nth)
      then obtain p where p: "p \<in> set (v_tiers v)" "attached p t"
        using nth_mem by blast
      from p(1) vt have "\<not> invalid_tier p" by simp
      with valid_tier_min[of p] attached_min_key[OF p(2)] show ?thesis by simp
    qed
    then show ?thesis
      unfolding next_tw by (simp add: tier_js_min_quantity num_js_def)
  qed
  let ?rule' = "updated_rule (rule_at (stored_rules P admin trace) ruleIndex) (v_title v)
                (v_status v) (v_productIds v) (r_nextTiers res)"
  have w: "trace' = trace @ cs @
        document_write (shop_id (admin trace ShopQuery))
          ((stored_rules P admin trace)[ruleIndex := ?rule']) # (ps @ rest)"
    using tr nt by (simp add: document_write_def)
  have nd: "list_all (\<lambda>r. \<not> is_document_write r) (cs @ (ps @ rest))"
    using cs ps rest not_writes_metafields by (auto simp: list_all_iff)
  have rt': "js_get ?rule' ''tiers'' = JArr (map tier_js (r_nextTiers res))"
    by (rule updated_rule_tiers)
  from f findRuleIndex_in_range[OF f] w nd rt' nums sorted stable
  show ?thesis by blast
qed

theorem update_persists_sorted_tiers_witness:
  "update_rule example_parse example_admin ''bulk-a'' form_new_first [] =
     (Some (Ok (Updated (updated_of
        (fst (update_rule example_parse example_admin ''bulk-a'' form_new_first []))))),
      snd (update_rule example_parse example_admin ''bulk-a'' form_new_first [])) \<and>
   map min_key (form_tiers example_parse form_new_first) = [10, 5] \<and>
   map min_key (r_nextTiers (updated_of
        (fst (update_rule example_parse example_admin ''bulk-a'' form_new_first [])))) = [5, 10] \<and>
   map tier_discount_id (r_nextTiers (updated_of
        (fst (update_rule example_parse example_admin ''bulk-a'' form_new_first [])))) =
     [Some ''d1'', Some ''d9''] \<and>
   (\<exists>ruleIndex rule' before after.
     findRuleIndex (stored_rules example_parse example_admin []) ''bulk-a'' 0 = Found ruleIndex \<and>
     ruleIndex < length (stored_rules example_parse example_admin []) \<and>
     snd (update_rule example_parse example_admin ''bulk-a'' form_new_first []) = [] @ before @
        document_write (shop_id (example_admin [] ShopQuery))
          ((stored_rules example_parse example_admin [])[ruleIndex := rule']) # after \<and>
     list_all (\<lambda>r. \<not> is_document_write r) (before @ after) \<and>
     js_get rule' ''tiers'' = JArr (map tier_js (r_nextTiers (updated_of
        (fst (update_rule example_parse example_admin ''bulk-a'' form_new_first []))))) \<and>
     sorted (map min_key (r_nextTiers (updated_of
        (fst (update_rule example_parse example_admin ''bulk-a'' form_new_first []))))))"
proof -
  have h: "update_rule example_parse example_admin ''bulk-a'' form_new_first [] =
     (Some (Ok (Updated (updated_of
        (fst (update_rule example_parse example_admin ''bulk-a'' form_new_first []))))),
      snd (update_rule example_parse example_admin ''bulk-a'' form_new_first []))"
    by code_simp
  have a: "map min_key (form_tiers example_parse form_new_first) = [10, 5]" by code_simp
  have b: "map min_key (r_nextTiers (updated_of
        (fst (update_rule example_parse example_admin ''bulk-a'' form_new_first [])))) = [5, 10]"
    by code_simp
  have c: "map tier_discount_id (r_nextTiers (updated_of
        (fst (update_rule example_parse example_admin ''bulk-a'' form_new_first [])))) =
     [Some ''d1'', Some ''d9'']"
    by code_simp
  from update_persists_sorted_tiers [OF h] h a b c show ?thesis by blast
qed

subsection \<open>The projections are written after the document\<close>















end
